theory Spec2Isabelle
  imports Complex_Main
begin

section \<open>Data model of \<^verbatim>\<open>main.py\<close>\<close>

text \<open>
  The pydantic models of the source become records. A Python \<^verbatim>\<open>float\<close> is modelled by the
  real number it denotes (NaN and the infinities are outside the model); \<^verbatim>\<open>Optional\<close>
  fields are \<open>option\<close>s. The field \<^verbatim>\<open>id\<close> of \<^verbatim>\<open>Station\<close> is called \<open>station_id\<close>, and
  the field \<^verbatim>\<open>origin\<close> of \<^verbatim>\<open>OptimizeResponse\<close> is called \<open>resp_origin\<close>.
\<close>

record Station =
  station_id :: "string option"
  name :: string
  latitude :: real
  longitude :: real
  charger_type :: string
  power_kw :: real
  price_per_kwh :: "real option"
  availability :: "string option"
  city :: "string option"

record OptimizeRequest =
  origin :: string
  max_distance_km :: real
  preferred_charger :: "string option"

text \<open>The dictionary \<^verbatim>\<open>{"lat": ..., "lon": ...}\<close> that \<^verbatim>\<open>geocode_address\<close> returns.\<close>

record coords =
  lat :: real
  lon :: real

text \<open>The dictionary \<^verbatim>\<open>{"station": s, "distance_km": d_km}\<close> of the selection step.\<close>

record candidate =
  cand_station :: Station
  cand_distance_km :: real

text \<open>The summary dictionary of one candidate in the response.\<close>

record summary =
  sum_name :: string
  sum_latitude :: real
  sum_longitude :: real
  sum_distance_km :: real
  sum_charger_type :: string
  sum_power_kw :: real

record OptimizeResponse =
  resp_origin :: coords
  best_station :: Station
  distance_km :: real
  eta_minutes :: real
  route_polyline :: "real list list"
  candidates :: "summary list"

text \<open>
  \<^verbatim>\<open>HTTPException(status_code, detail)\<close> is the error the endpoint raises; \<open>ValueError\<close> is what
  Python's \<^verbatim>\<open>min\<close> raises on an empty sequence.
\<close>

datatype error = HTTPException nat string | ValueError

section \<open>The collaborators\<close>

text \<open>
  What \<^verbatim>\<open>geolocator.geocode(query)\<close> of geopy does: it returns a location, returns
  \<^verbatim>\<open>None\<close>, or raises.
\<close>

datatype geo_outcome = Located real real | No_match | Provider_error

text \<open>
  The world outside the module: the geocoding provider, the database handle \<^verbatim>\<open>db\<close> of the
  module \<^verbatim>\<open>database\<close> (\<open>None\<close> when it is not configured, otherwise the documents that
  \<^verbatim>\<open>get_documents("station", {}, limit=200)\<close> returns, each a pair of the text of its
  \<^verbatim>\<open>_id\<close> and its station fields), geopy's \<^verbatim>\<open>geodesic(p, q).km\<close> on pairs
  (latitude, longitude), taken to return for the coordinates it is given, and Python's
  built-in \<^verbatim>\<open>str.lower()\<close>. A Python string is a list of characters (text outside ASCII
  as the bytes of its UTF-8 encoding, so that two strings are equal exactly when their
  lists are), and \<^verbatim>\<open>str.lower()\<close>, which follows the Unicode case mapping, is a function
  on such lists that the model does not fix: what is proved holds for every such function.
\<close>

record world =
  geolocator_geocode :: "string \<Rightarrow> geo_outcome"
  db :: "(string \<times> Station) list option"
  geodesic_km :: "real \<times> real \<Rightarrow> real \<times> real \<Rightarrow> real"
  lower :: "string \<Rightarrow> string"

text \<open>The calls that leave the endpoint, in the order they are made.\<close>

datatype event = Geocode string | ListStations | Geodesic "real \<times> real" "real \<times> real"

section \<open>Float arithmetic\<close>

text \<open>
  Python floats are IEEE 754 binary64 numbers: every arithmetic operation returns the
  representable number nearest to the exact result, ties to the even significand.
  \<open>binade x\<close> is the exponent of \<open>x\<close> (at least \<open>-1022\<close>, where the subnormal numbers
  begin), \<open>ulp x\<close> the spacing of the representable numbers around \<open>x\<close>, and \<open>fl x\<close> the
  representable number nearest to \<open>x\<close>. Overflow to infinity is not modelled.
\<close>

definition round_half_even :: "real \<Rightarrow> int" where
  "round_half_even x =
     (let f = \<lfloor>x\<rfloor>; r = x - of_int f
      in if r < 1 / 2 then f else if 1 / 2 < r then f + 1
         else if even f then f else f + 1)"

definition binade :: "real \<Rightarrow> int" where
  "binade x = max \<lfloor>log 2 \<bar>x\<bar>\<rfloor> (- 1022)"

definition ulp :: "real \<Rightarrow> real" where
  "ulp x = 2 powi (binade x - 52)"

definition fl :: "real \<Rightarrow> real" where
  "fl x = of_int (round_half_even (x / ulp x)) * ulp x"

definition fdiv :: "real \<Rightarrow> real \<Rightarrow> real" where
  "fdiv x y = fl (x / y)"

definition fmul :: "real \<Rightarrow> real \<Rightarrow> real" where
  "fmul x y = fl (x * y)"

text \<open>
  \<^verbatim>\<open>round(x, n)\<close> on a float: the exact value of \<open>x\<close> is rounded to \<open>n\<close> decimals, ties to
  the even digit, and the decimal is converted back to the nearest float.
\<close>

definition py_round :: "real \<Rightarrow> nat \<Rightarrow> real" where
  "py_round x n = fl (of_int (round_half_even (x * 10 ^ n)) / 10 ^ n)"

section \<open>Strings and sequences\<close>

text \<open>
  What \<^verbatim>\<open>str.lower()\<close> does on ASCII text: the letters A to Z are mapped to a to z,
  every other character is kept. The worlds that the endpoint is run in below hold ASCII
  text only, and use this function as their \<open>lower\<close>.
\<close>

definition lower_char :: "char \<Rightarrow> char" where
  "lower_char c =
     (if 65 \<le> (of_char c :: nat) \<and> (of_char c :: nat) \<le> 90
      then char_of ((of_char c :: nat) + 32) else c)"

definition ascii_lower :: "string \<Rightarrow> string" where
  "ascii_lower s = map lower_char s"

text \<open>
  \<^verbatim>\<open>sorted(xs, key=k)\<close> is a stable ascending sort; a stable sort has one result, which is
  the one of insertion sort. \<^verbatim>\<open>min(xs, key=k)\<close> returns the first element whose key is
  least, and raises \<^verbatim>\<open>ValueError\<close> on an empty sequence (here \<open>None\<close>).
\<close>

definition sorted_py :: "('a \<Rightarrow> real) \<Rightarrow> 'a list \<Rightarrow> 'a list" where
  "sorted_py key xs = sort_key key xs"

primrec min_from :: "('a \<Rightarrow> real) \<Rightarrow> 'a \<Rightarrow> 'a list \<Rightarrow> 'a" where
  "min_from key best [] = best"
| "min_from key best (x # xs) = min_from key (if key x < key best then x else best) xs"

definition min_py :: "('a \<Rightarrow> real) \<Rightarrow> 'a list \<Rightarrow> 'a option" where
  "min_py key xs = (case xs of [] \<Rightarrow> None | x # ys \<Rightarrow> Some (min_from key x ys))"

section \<open>Utilities\<close>

definition geocode_address :: "world \<Rightarrow> string \<Rightarrow> coords option" where
  "geocode_address w query =
     (case geolocator_geocode w query of
        Located la lo \<Rightarrow> Some \<lparr>lat = la, lon = lo\<rparr>
      | No_match \<Rightarrow> None
      | Provider_error \<Rightarrow> None)"

definition haversine_km :: "world \<Rightarrow> coords \<Rightarrow> coords \<Rightarrow> real" where
  "haversine_km w a b = geodesic_km w (lat a, lon a) (lat b, lon b)"

definition station_coords :: "Station \<Rightarrow> coords" where
  "station_coords s = \<lparr>lat = latitude s, lon = longitude s\<rparr>"

text \<open>The in-memory station that \<^verbatim>\<open>list_stations\<close> returns when there is no database.\<close>

definition sample_station :: Station where
  "sample_station =
     \<lparr>station_id = None, name = ''Sample Station'', latitude = fl (377749 / 10000),
      longitude = fl (- (1224194 / 10000)), charger_type = ''CCS'', power_kw = 100,
      price_per_kwh = None, availability = Some ''unknown'', city = None\<rparr>"

text \<open>\<^verbatim>\<open>list_stations()\<close> as \<^verbatim>\<open>optimize_route\<close> calls it: no city, no charger.\<close>

definition list_stations :: "world \<Rightarrow> Station list" where
  "list_stations w =
     (case db w of
        None \<Rightarrow> [sample_station]
      | Some docs \<Rightarrow> map (\<lambda>(oid, d). d\<lparr>station_id := Some oid\<rparr>) docs)"

section \<open>The endpoint \<^verbatim>\<open>optimize_route\<close>\<close>

text \<open>The charger filter: a preference that is \<^verbatim>\<open>None\<close> or the empty string is falsy.\<close>

definition charger_filter :: "world \<Rightarrow> string option \<Rightarrow> Station list \<Rightarrow> Station list" where
  "charger_filter w pref stations =
     (case pref of
        None \<Rightarrow> stations
      | Some p \<Rightarrow>
          if p = [] then stations
          else filter (\<lambda>s. lower w (charger_type s) = lower w p) stations)"

text \<open>The loop that collects the stations within the radius.\<close>

primrec within_radius :: "world \<Rightarrow> coords \<Rightarrow> real \<Rightarrow> Station list \<Rightarrow> candidate list" where
  "within_radius w origin_coords m [] = []"
| "within_radius w origin_coords m (s # ss) =
     (let d_km = haversine_km w origin_coords (station_coords s)
      in if d_km \<le> m
         then \<lparr>cand_station = s, cand_distance_km = d_km\<rparr> # within_radius w origin_coords m ss
         else within_radius w origin_coords m ss)"

definition stations_with_dist :: "world \<Rightarrow> coords \<Rightarrow> Station list \<Rightarrow> candidate list" where
  "stations_with_dist w origin_coords stations =
     map (\<lambda>s. \<lparr>cand_station = s,
               cand_distance_km = haversine_km w origin_coords (station_coords s)\<rparr>) stations"

text \<open>The selection step: the radius filter, the fallback, the sort and the cut to five.\<close>

definition select_candidates :: "world \<Rightarrow> coords \<Rightarrow> real \<Rightarrow> Station list \<Rightarrow> candidate list" where
  "select_candidates w origin_coords m stations =
     (let cands = within_radius w origin_coords m stations
      in if cands = []
         then take 5 (sorted_py cand_distance_km (stations_with_dist w origin_coords stations))
         else take 5 (sorted_py cand_distance_km cands))"

text \<open>The calls of \<^verbatim>\<open>geodesic\<close> that the selection step makes.\<close>

definition select_events :: "world \<Rightarrow> coords \<Rightarrow> real \<Rightarrow> Station list \<Rightarrow> event list" where
  "select_events w origin_coords m stations =
     (let calls = map (\<lambda>s. Geodesic (lat origin_coords, lon origin_coords)
                                     (latitude s, longitude s)) stations
      in if within_radius w origin_coords m stations = [] then calls @ calls else calls)"

definition summarize :: "candidate \<Rightarrow> summary" where
  "summarize c =
     \<lparr>sum_name = name (cand_station c),
      sum_latitude = latitude (cand_station c),
      sum_longitude = longitude (cand_station c),
      sum_distance_km = py_round (cand_distance_km c) 2,
      sum_charger_type = charger_type (cand_station c),
      sum_power_kw = power_kw (cand_station c)\<rparr>"

text \<open>
  The response for a resolved origin and the selected candidates. The graph that the
  source builds from the candidates is never read, so it is left out.
\<close>

definition build_response :: "coords \<Rightarrow> candidate list \<Rightarrow> error + OptimizeResponse" where
  "build_response origin_coords cands =
     (case min_py cand_distance_km cands of
        None \<Rightarrow> Inl ValueError
      | Some best \<Rightarrow>
          Inr \<lparr>resp_origin = origin_coords,
               best_station = cand_station best,
               distance_km = py_round (cand_distance_km best) 2,
               eta_minutes = py_round (fmul (fdiv (cand_distance_km best) 60) 60) 1,
               route_polyline =
                 [[lat origin_coords, lon origin_coords],
                  [latitude (cand_station best), longitude (cand_station best)]],
               candidates = map summarize cands\<rparr>)"

definition optimize_route :: "world \<Rightarrow> OptimizeRequest \<Rightarrow> event list \<times> (error + OptimizeResponse)" where
  "optimize_route w req =
     (case geocode_address w (origin req) of
        None \<Rightarrow> ([Geocode (origin req)], Inl (HTTPException 404 ''Origin not found''))
      | Some origin_coords \<Rightarrow>
          (let stations = charger_filter w (preferred_charger req) (list_stations w)
           in if stations = []
              then ([Geocode (origin req), ListStations],
                    Inl (HTTPException 404 ''No stations available for the given filter''))
              else ([Geocode (origin req), ListStations]
                      @ select_events w origin_coords (max_distance_km req) stations,
                    build_response origin_coords
                      (select_candidates w origin_coords (max_distance_km req) stations))))"

text \<open>
  The candidates that are sorted: those within the radius, or all of them when none is.
\<close>

definition pool :: "world \<Rightarrow> coords \<Rightarrow> real \<Rightarrow> Station list \<Rightarrow> candidate list" where
  "pool w origin_coords m stations =
     (if within_radius w origin_coords m stations = []
      then stations_with_dist w origin_coords stations
      else within_radius w origin_coords m stations)"

text \<open>
  What a request works with once its origin is resolved to \<open>oc\<close>: the stations left by the
  charger filter, the candidates that are sorted, and the candidates that are selected.
\<close>

definition request_stations :: "world \<Rightarrow> OptimizeRequest \<Rightarrow> Station list" where
  "request_stations w req = charger_filter w (preferred_charger req) (list_stations w)"

definition request_pool :: "world \<Rightarrow> OptimizeRequest \<Rightarrow> coords \<Rightarrow> candidate list" where
  "request_pool w req oc = pool w oc (max_distance_km req) (request_stations w req)"

definition request_candidates :: "world \<Rightarrow> OptimizeRequest \<Rightarrow> coords \<Rightarrow> candidate list" where
  "request_candidates w req oc =
     select_candidates w oc (max_distance_km req) (request_stations w req)"

section \<open>A small world to run the endpoint in\<close>

text \<open>
  Three stored stations on the meridian of the origin, and a distance function that
  returns the difference of the latitudes, so that the stations are at 60, 15 and 30.
\<close>

definition station_a :: Station where
  "station_a =
     \<lparr>station_id = None, name = ''Alpha'', latitude = 60, longitude = 0,
      charger_type = ''CCS'', power_kw = 150, price_per_kwh = None,
      availability = Some ''available'', city = None\<rparr>"

definition station_b :: Station where
  "station_b =
     \<lparr>station_id = None, name = ''Beta'', latitude = 15, longitude = 0,
      charger_type = ''Type2'', power_kw = 30, price_per_kwh = None,
      availability = Some ''busy'', city = None\<rparr>"

definition station_c :: Station where
  "station_c =
     \<lparr>station_id = None, name = ''Gamma'', latitude = 30, longitude = 0,
      charger_type = ''ccs'', power_kw = 50, price_per_kwh = None,
      availability = Some ''unknown'', city = None\<rparr>"

definition demo_geocode :: "string \<Rightarrow> geo_outcome" where
  "demo_geocode q =
     (if q = ''here'' then Located 0 0
      else if q = ''down'' then Provider_error else No_match)"

definition demo_world :: world where
  "demo_world =
     \<lparr>geolocator_geocode = demo_geocode,
      db = Some [(''a'', station_a), (''b'', station_b), (''c'', station_c)],
      geodesic_km = (\<lambda>p q. \<bar>fst q - fst p\<bar>), lower = ascii_lower\<rparr>"

definition demo_stations :: "Station list" where
  "demo_stations =
     [station_a\<lparr>station_id := Some ''a''\<rparr>, station_b\<lparr>station_id := Some ''b''\<rparr>,
      station_c\<lparr>station_id := Some ''c''\<rparr>]"

definition demo_origin :: coords where
  "demo_origin = \<lparr>lat = 0, lon = 0\<rparr>"

definition demo_request :: "real \<Rightarrow> string option \<Rightarrow> OptimizeRequest" where
  "demo_request m pref = \<lparr>origin = ''here'', max_distance_km = m, preferred_charger = pref\<rparr>"

definition cand_a :: candidate where
  "cand_a = \<lparr>cand_station = station_a\<lparr>station_id := Some ''a''\<rparr>, cand_distance_km = 60\<rparr>"

definition cand_b :: candidate where
  "cand_b = \<lparr>cand_station = station_b\<lparr>station_id := Some ''b''\<rparr>, cand_distance_km = 15\<rparr>"

definition cand_c :: candidate where
  "cand_c = \<lparr>cand_station = station_c\<lparr>station_id := Some ''c''\<rparr>, cand_distance_km = 30\<rparr>"

definition summary_a :: summary where
  "summary_a =
     \<lparr>sum_name = ''Alpha'', sum_latitude = 60, sum_longitude = 0, sum_distance_km = 60,
      sum_charger_type = ''CCS'', sum_power_kw = 150\<rparr>"

definition summary_b :: summary where
  "summary_b =
     \<lparr>sum_name = ''Beta'', sum_latitude = 15, sum_longitude = 0, sum_distance_km = 15,
      sum_charger_type = ''Type2'', sum_power_kw = 30\<rparr>"

definition summary_c :: summary where
  "summary_c =
     \<lparr>sum_name = ''Gamma'', sum_latitude = 30, sum_longitude = 0, sum_distance_km = 30,
      sum_charger_type = ''ccs'', sum_power_kw = 50\<rparr>"

text \<open>The response when \<open>best\<close> is the nearest of the candidates \<open>cs\<close>, at distance \<open>d\<close>.\<close>

definition demo_response :: "Station \<Rightarrow> real \<Rightarrow> summary list \<Rightarrow> OptimizeResponse" where
  "demo_response best d cs =
     \<lparr>resp_origin = demo_origin, best_station = best, distance_km = d, eta_minutes = d,
      route_polyline = [[0, 0], [latitude best, longitude best]], candidates = cs\<rparr>"

text \<open>
  A second world: one stored station, and a distance function that returns the float
  written \<^verbatim>\<open>1.95\<close>, whose value is \<open>8782019273372467 / 2 ^ 52\<close>.
\<close>

definition d195 :: real where
  "d195 = 8782019273372467 / 4503599627370496"

definition near_world :: world where
  "near_world =
     \<lparr>geolocator_geocode = demo_geocode, db = Some [(''a'', station_a)],
      geodesic_km = (\<lambda>p q. d195), lower = ascii_lower\<rparr>"

definition near_candidate :: candidate where
  "near_candidate =
     \<lparr>cand_station = station_a\<lparr>station_id := Some ''a''\<rparr>, cand_distance_km = d195\<rparr>"

definition near_response :: OptimizeResponse where
  "near_response =
     \<lparr>resp_origin = demo_origin, best_station = station_a\<lparr>station_id := Some ''a''\<rparr>,
      distance_km = d195, eta_minutes = 2, route_polyline = [[0, 0], [60, 0]],
      candidates =
        [\<lparr>sum_name = ''Alpha'', sum_latitude = 60, sum_longitude = 0, sum_distance_km = d195,
          sum_charger_type = ''CCS'', sum_power_kw = 150\<rparr>]\<rparr>"

text \<open>
  A third world: two stored stations, Beta before Alpha, and a distance function that
  returns the float \<^verbatim>\<open>0.125\<close> for both. Its hundredfold, \<open>12.5\<close>, lies halfway between two
  integers, and the two stations tie. The floats written \<^verbatim>\<open>0.12\<close> and \<^verbatim>\<open>0.1\<close> have the
  values \<open>8646911284551352 / 2 ^ 56\<close> and \<open>7205759403792794 / 2 ^ 56\<close>.
\<close>

definition tie_world :: world where
  "tie_world =
     \<lparr>geolocator_geocode = demo_geocode, db = Some [(''b'', station_b), (''a'', station_a)],
      geodesic_km = (\<lambda>p q. 1 / 8), lower = ascii_lower\<rparr>"

definition tie_candidates :: "candidate list" where
  "tie_candidates =
     [\<lparr>cand_station = station_b\<lparr>station_id := Some ''b''\<rparr>, cand_distance_km = 1 / 8\<rparr>,
      \<lparr>cand_station = station_a\<lparr>station_id := Some ''a''\<rparr>, cand_distance_km = 1 / 8\<rparr>]"

definition tie_response :: OptimizeResponse where
  "tie_response =
     \<lparr>resp_origin = demo_origin, best_station = station_b\<lparr>station_id := Some ''b''\<rparr>,
      distance_km = 8646911284551352 / 2 ^ 56, eta_minutes = 7205759403792794 / 2 ^ 56,
      route_polyline = [[0, 0], [15, 0]],
      candidates =
        [\<lparr>sum_name = ''Beta'', sum_latitude = 15, sum_longitude = 0,
          sum_distance_km = 8646911284551352 / 2 ^ 56,
          sum_charger_type = ''Type2'', sum_power_kw = 30\<rparr>,
         \<lparr>sum_name = ''Alpha'', sum_latitude = 60, sum_longitude = 0,
          sum_distance_km = 8646911284551352 / 2 ^ 56,
          sum_charger_type = ''CCS'', sum_power_kw = 150\<rparr>]\<rparr>"

section \<open>Properties of the float arithmetic\<close>

lemma rhe_of_int: "round_half_even (of_int k) = k"
  by (simp add: round_half_even_def)

lemma rhe_range: "\<lfloor>x\<rfloor> \<le> round_half_even x \<and> round_half_even x \<le> \<lfloor>x\<rfloor> + 1"
  by (simp add: round_half_even_def Let_def)

lemma rhe_mono: "x \<le> y \<Longrightarrow> round_half_even x \<le> round_half_even y"
proof -
  assume xy: "x \<le> y"
  then have f: "\<lfloor>x\<rfloor> \<le> \<lfloor>y\<rfloor>" by (rule floor_mono)
  show ?thesis
  proof (cases "\<lfloor>x\<rfloor> = \<lfloor>y\<rfloor>")
    case True
    with xy show ?thesis
      by (auto simp: round_half_even_def Let_def)
  next
    case False
    with f have "\<lfloor>x\<rfloor> + 1 \<le> \<lfloor>y\<rfloor>" by simp
    with rhe_range[of x] rhe_range[of y] show ?thesis by linarith
  qed
qed

lemma rhe_error: "\<bar>of_int (round_half_even x) - x\<bar> \<le> 1 / 2"
  unfolding round_half_even_def Let_def
  by (auto simp: abs_le_iff)

lemma rhe_minus: "round_half_even (- x) = - round_half_even x"
proof (cases "x = of_int \<lfloor>x\<rfloor>")
  case True
  then obtain k where "x = of_int k" ..
  then show ?thesis
    by (simp add: rhe_of_int flip: of_int_minus)
next
  case False
  then have c: "\<lceil>x\<rceil> = \<lfloor>x\<rfloor> + 1"
    by (metis ceiling_altdef)
  have fm: "\<lfloor>- x\<rfloor> = - \<lfloor>x\<rfloor> - 1"
    using c by (simp add: floor_minus)
  from False have r: "x - of_int \<lfloor>x\<rfloor> \<noteq> 0" by simp
  show ?thesis
    unfolding round_half_even_def Let_def fm
    using r by (auto simp: )
qed

lemma rhe_eval:
  assumes "of_int k - 1 / 2 < x" and "x < of_int k + 1 / 2"
  shows "round_half_even x = k"
proof -
  have "\<lfloor>x\<rfloor> = k \<or> \<lfloor>x\<rfloor> = k - 1"
    using assms by linarith
  then show ?thesis
    using assms unfolding round_half_even_def Let_def by auto
qed

lemma rhe_tie_up:
  assumes "x = of_int k - 1 / 2" and "even k"
  shows "round_half_even x = k"
proof -
  have f: "\<lfloor>x\<rfloor> = k - 1"
    unfolding assms(1) by linarith
  show ?thesis
    unfolding round_half_even_def Let_def f using assms by simp
qed

lemma ulp_pos: "0 < ulp x"
  by (simp add: ulp_def)

lemma floor_log2_bounds:
  assumes "0 < (x::real)"
  shows "2 powi \<lfloor>log 2 x\<rfloor> \<le> x" and "x < 2 powi (\<lfloor>log 2 x\<rfloor> + 1)"
proof -
  have "2 powr (of_int \<lfloor>log 2 x\<rfloor>) \<le> x \<and> x < 2 powr (of_int (\<lfloor>log 2 x\<rfloor> + 1))"
    using floor_log_eq_powr_iff[of x 2 "\<lfloor>log 2 x\<rfloor>"] assms by simp
  then show "2 powi \<lfloor>log 2 x\<rfloor> \<le> x" and "x < 2 powi (\<lfloor>log 2 x\<rfloor> + 1)"
    by (simp_all only: powr_real_of_int'[of 2, simplified])
qed

lemma floor_log2_eq:
  assumes "2 powi e \<le> (x::real)" and "x < 2 powi (e + 1)"
  shows "\<lfloor>log 2 x\<rfloor> = e"
proof -
  have pos: "0 < x"
    using assms(1) by (smt (verit) zero_less_power_int)
  have "2 powr (of_int e) \<le> x \<and> x < 2 powr (of_int (e + 1))"
    using assms by (simp only: powr_real_of_int'[of 2, simplified])
  then show ?thesis
    using floor_log_eq_powr_iff[of x 2 e] pos by simp
qed

lemma binade_mono: "0 < x \<Longrightarrow> x \<le> y \<Longrightarrow> binade x \<le> binade y"
  unfolding binade_def
  by (intro max.mono floor_mono) (simp_all)

lemma binade_ge: "- 1022 \<le> binade x"
  by (simp add: binade_def)

lemma powi2_div: "(2::real) powi a / 2 powi b = 2 powi (a - b)"
  by (simp add: power_int_diff)

lemma powi2_mult: "(2::real) powi a * 2 powi b = 2 powi (a + b)"
  by (simp add: power_int_add)

lemma pow_ulp: "2 ^ 52 * ulp x = 2 powi binade x" "2 ^ 53 * ulp x = 2 powi (binade x + 1)"
proof -
  have "(2::real) ^ 52 = 2 powi 52" "(2::real) ^ 53 = 2 powi 53" by simp_all
  then show "2 ^ 52 * ulp x = 2 powi binade x" "2 ^ 53 * ulp x = 2 powi (binade x + 1)"
    unfolding ulp_def by (simp_all only: powi2_mult) (simp_all add: add.commute)
qed

lemma div_ulp: "2 powi binade x / ulp x = 2 powi 52" "2 powi (binade x + 1) / ulp x = 2 powi 53"
  unfolding ulp_def powi2_div by simp_all

lemma binade_lower: "x \<noteq> 0 \<Longrightarrow> - 1022 < binade x \<Longrightarrow> 2 powi binade x \<le> \<bar>x\<bar>"
proof -
  assume x: "x \<noteq> 0" and b: "- 1022 < binade x"
  from b have "binade x = \<lfloor>log 2 \<bar>x\<bar>\<rfloor>"
    by (simp add: binade_def max_def split: if_splits)
  with floor_log2_bounds(1)[of "\<bar>x\<bar>"] x show ?thesis by simp
qed

lemma binade_upper: "x \<noteq> 0 \<Longrightarrow> \<bar>x\<bar> < 2 powi (binade x + 1)"
proof -
  assume x: "x \<noteq> 0"
  have "\<lfloor>log 2 \<bar>x\<bar>\<rfloor> + 1 \<le> binade x + 1"
    by (simp add: binade_def)
  then have "(2::real) powi (\<lfloor>log 2 \<bar>x\<bar>\<rfloor> + 1) \<le> 2 powi (binade x + 1)"
    by (intro power_int_increasing) simp_all
  with floor_log2_bounds(2)[of "\<bar>x\<bar>"] x show ?thesis by simp
qed

lemma binade_eq:
  assumes "2 powi e \<le> \<bar>x\<bar>" and "\<bar>x\<bar> < 2 powi (e + 1)" and "- 1022 \<le> e"
  shows "binade x = e"
  using floor_log2_eq[OF assms(1,2)] assms(3) by (simp add: binade_def)

lemma binade_abs: "binade (- x) = binade x"
  by (simp add: binade_def)

lemma fl_minus: "fl (- x) = - fl x"
  by (simp add: fl_def ulp_def binade_abs rhe_minus)

lemma fl_zero: "fl 0 = 0"
  by (simp add: fl_def rhe_of_int[of 0, simplified])

lemma fl_nonneg: "0 \<le> x \<Longrightarrow> 0 \<le> fl x"
proof -
  assume "0 \<le> x"
  then have "0 \<le> x / ulp x" using ulp_pos[of x] by simp
  then have "round_half_even 0 \<le> round_half_even (x / ulp x)" by (rule rhe_mono)
  then have "0 \<le> round_half_even (x / ulp x)" by (simp add: rhe_of_int[of 0, simplified])
  then show ?thesis using ulp_pos[of x] by (simp add: fl_def)
qed

lemma fl_mono_pos:
  assumes "0 < x" and "x \<le> y"
  shows "fl x \<le> fl y"
proof (cases "binade x = binade y")
  case True
  then have u: "ulp x = ulp y" by (simp add: ulp_def)
  have "x / ulp y \<le> y / ulp y"
    using assms(2) ulp_pos[of y] by (simp add: divide_right_mono)
  then have "round_half_even (x / ulp y) \<le> round_half_even (y / ulp y)" by (rule rhe_mono)
  then show ?thesis
    using ulp_pos[of y] by (simp add: fl_def u)
next
  case False
  with binade_mono[OF assms] have lt: "binade x + 1 \<le> binade y" by simp
  then have ylow: "- 1022 < binade y"
    by (smt (verit) binade_def max.cobounded2)
  have ypos: "0 < y" using assms by simp
  have "x < 2 powi (binade x + 1)"
    using binade_upper[of x] assms(1) by simp
  then have "x / ulp x \<le> 2 powi (binade x + 1) / ulp x"
    using ulp_pos[of x] by (simp add: divide_right_mono)
  also have "2 powi (binade x + 1) / ulp x = (2::real) powi 53"
    by (rule div_ulp)
  finally have "round_half_even (x / ulp x) \<le> round_half_even (2 powi 53)"
    by (rule rhe_mono)
  also have "round_half_even (2 powi 53) = 2 ^ 53"
    using rhe_of_int[of "2 ^ 53"] by simp
  finally have "real_of_int (round_half_even (x / ulp x)) \<le> real_of_int (2 ^ 53)"
    by (simp only: of_int_le_iff)
  then have "of_int (round_half_even (x / ulp x)) * ulp x \<le> (2 ^ 53) * ulp x"
    using ulp_pos[of x] by (simp add: mult_right_mono)
  also have "2 ^ 53 * ulp x = 2 powi (binade x + 1)"
    by (rule pow_ulp)
  finally have a: "fl x \<le> 2 powi (binade x + 1)"
    by (simp add: fl_def)
  have b: "(2::real) powi (binade x + 1) \<le> 2 powi binade y"
    using lt by (intro power_int_increasing) simp_all
  have "2 powi binade y \<le> y"
    using binade_lower[of y] ylow ypos by simp
  then have "2 powi binade y / ulp y \<le> y / ulp y"
    using ulp_pos[of y] by (simp add: divide_right_mono)
  moreover have "2 powi binade y / ulp y = (2::real) powi 52"
    by (rule div_ulp)
  ultimately have "round_half_even (2 powi 52) \<le> round_half_even (y / ulp y)"
    by (simp add: rhe_mono)
  moreover have "round_half_even (2 powi 52) = 2 ^ 52"
    using rhe_of_int[of "2 ^ 52"] by simp
  ultimately have "(2::int) ^ 52 \<le> round_half_even (y / ulp y)"
    by simp
  then have "real_of_int (2 ^ 52) \<le> real_of_int (round_half_even (y / ulp y))"
    by (simp only: of_int_le_iff)
  then have "(2 ^ 52) * ulp y \<le> of_int (round_half_even (y / ulp y)) * ulp y"
    using ulp_pos[of y] by (simp add: mult_right_mono)
  moreover have "2 ^ 52 * ulp y = 2 powi binade y"
    by (rule pow_ulp)
  ultimately have c: "2 powi binade y \<le> fl y"
    by (simp add: fl_def)
  from a b c show ?thesis by linarith
qed

lemma fl_mono: "x \<le> y \<Longrightarrow> fl x \<le> fl y"
proof -
  assume xy: "x \<le> y"
  consider "0 < x" | "x \<le> 0" "0 \<le> y" | "y < 0" by linarith
  then show ?thesis
  proof cases
    case 1
    then show ?thesis using xy by (rule fl_mono_pos)
  next
    case 2
    have "fl x \<le> 0" using fl_nonneg[of "- x"] 2(1) by (simp add: fl_minus)
    moreover have "0 \<le> fl y" using 2(2) by (rule fl_nonneg)
    ultimately show ?thesis by simp
  next
    case 3
    then have "0 < - y" "- y \<le> - x" using xy by simp_all
    then have "fl (- y) \<le> fl (- x)" by (rule fl_mono_pos)
    then show ?thesis by (simp add: fl_minus)
  qed
qed

lemma py_round_mono: "x \<le> y \<Longrightarrow> py_round x n \<le> py_round y n"
proof -
  assume "x \<le> y"
  then have "x * 10 ^ n \<le> y * 10 ^ n" by simp
  then have "round_half_even (x * 10 ^ n) \<le> round_half_even (y * 10 ^ n)" by (rule rhe_mono)
  then have "(of_int (round_half_even (x * 10 ^ n)) :: real) / 10 ^ n
      \<le> of_int (round_half_even (y * 10 ^ n)) / 10 ^ n"
    by (simp add: divide_right_mono)
  then show ?thesis unfolding py_round_def by (rule fl_mono)
qed

lemma fl_exact:
  assumes "2 powi e \<le> \<bar>x\<bar>" and "\<bar>x\<bar> < 2 powi (e + 1)" and "- 1022 \<le> e"
    and "x = of_int k * 2 powi (e - 52)"
  shows "fl x = x"
proof -
  have b: "binade x = e" using assms(1-3) by (rule binade_eq)
  have "x / 2 powi (e - 52) = of_int k"
    using assms(4) by simp
  then show ?thesis
    by (simp add: fl_def ulp_def b rhe_of_int assms(4)[symmetric])
qed

lemma fl_value:
  assumes "2 powi e \<le> \<bar>x\<bar>" and "\<bar>x\<bar> < 2 powi (e + 1)" and "- 1022 \<le> e"
    and "of_int k - 1 / 2 < x / 2 powi (e - 52)" and "x / 2 powi (e - 52) < of_int k + 1 / 2"
  shows "fl x = of_int k * 2 powi (e - 52)"
  by (simp only: fl_def ulp_def binade_eq[OF assms(1-3)] rhe_eval[OF assms(4,5)])

lemma fl_value_tie:
  assumes "2 powi e \<le> \<bar>x\<bar>" and "\<bar>x\<bar> < 2 powi (e + 1)" and "- 1022 \<le> e"
    and "x / 2 powi (e - 52) = of_int k - 1 / 2" and "even k"
  shows "fl x = of_int k * 2 powi (e - 52)"
  by (simp only: fl_def ulp_def binade_eq[OF assms(1-3)] rhe_tie_up[OF assms(4,5)])

lemma fl_rel_error:
  assumes "2 powi (- 1022) \<le> \<bar>x\<bar>"
  shows "\<bar>fl x - x\<bar> \<le> 2 powi (- 53) * \<bar>x\<bar>"
proof -
  have "(0::real) < 2 powi (- 1022)" by (rule zero_less_power_int) simp
  with assms have x0: "x \<noteq> 0" by auto
  have low: "2 powi binade x \<le> \<bar>x\<bar>"
  proof (cases "- 1022 < binade x")
    case True
    with x0 show ?thesis by (rule binade_lower)
  next
    case False
    with binade_ge[of x] have "binade x = - 1022" by simp
    with assms show ?thesis by simp
  qed
  have u: "0 < ulp x" by (rule ulp_pos)
  have "fl x - x = (of_int (round_half_even (x / ulp x)) - x / ulp x) * ulp x"
    using u by (simp add: fl_def left_diff_distrib)
  then have "\<bar>fl x - x\<bar> = \<bar>of_int (round_half_even (x / ulp x)) - x / ulp x\<bar> * ulp x"
    using u by (simp add: abs_mult)
  also have "\<dots> \<le> 1 / 2 * ulp x"
    using rhe_error[of "x / ulp x"] u by (intro mult_right_mono) simp_all
  also have "1 / 2 * ulp x = 2 powi (- 53) * 2 powi binade x"
  proof -
    have "(1 / 2 :: real) = 2 powi (- 1)" by simp
    then have "1 / 2 * ulp x = 2 powi (- 1 + (binade x - 52))"
      unfolding ulp_def by (simp only: powi2_mult)
    also have "\<dots> = 2 powi (- 53 + binade x)"
      by (simp add: algebra_simps)
    finally show ?thesis by (simp only: powi2_mult)
  qed
  also have "\<dots> \<le> 2 powi (- 53) * \<bar>x\<bar>"
    using low by (intro mult_left_mono) simp_all
  finally show ?thesis .
qed

lemma two_roundings:
  fixes eps D :: real
  assumes "0 \<le> eps" and "eps \<le> 1" and "D = \<bar>d\<bar>"
    and "\<bar>y - d\<bar> \<le> eps * D" and "\<bar>p - y\<bar> \<le> eps * \<bar>y\<bar>"
  shows "\<bar>p - d\<bar> \<le> 3 * eps * D"
proof -
  have D0: "0 \<le> D" using assms(3) by simp
  have "\<bar>y\<bar> \<le> D + eps * D" using assms(3,4) by linarith
  then have a: "eps * \<bar>y\<bar> \<le> eps * (D + eps * D)"
    using assms(1) by (rule mult_left_mono)
  have "eps * D \<le> D" using mult_right_mono[OF assms(2) D0] by simp
  then have b: "eps * (eps * D) \<le> eps * D"
    using assms(1) by (rule mult_left_mono)
  have "eps * (D + eps * D) = eps * D + eps * (eps * D)"
    by (rule distrib_left)
  with a b assms(5) have "\<bar>p - y\<bar> \<le> 2 * (eps * D)" by linarith
  with assms(4) show ?thesis by linarith
qed

lemma eta_close:
  assumes "2 powi (- 1000) \<le> \<bar>d\<bar>"
  shows "\<bar>fmul (fdiv d 60) 60 - d\<bar> \<le> 3 * 2 powi (- 53) * \<bar>d\<bar>"
proof -
  let ?eps = "2 powi (- 53) :: real"
  let ?tiny = "2 powi (- 1022) :: real"
  let ?q = "fl (d / 60)"
  have e0: "0 \<le> ?eps" by simp
  have e1: "?eps \<le> 1" by (simp add: power_int_minus field_simps)
  have t0: "0 < ?tiny" by (rule zero_less_power_int) simp
  have "(2::real) powi (- 1000) = 2 powi 22 * ?tiny"
    by (simp only: powi2_mult) simp
  then have big: "4194304 * ?tiny \<le> \<bar>d\<bar>"
    using assms by simp
  have A: "?tiny \<le> \<bar>d / 60\<bar>"
    using big t0 by simp
  have r1: "\<bar>?q - d / 60\<bar> \<le> ?eps * \<bar>d / 60\<bar>"
    using A by (rule fl_rel_error)
  have "\<bar>?q * 60 - d\<bar> = 60 * \<bar>?q - d / 60\<bar>"
    by (simp add: abs_if)
  also have "\<dots> \<le> 60 * (?eps * \<bar>d / 60\<bar>)"
    using r1 by simp
  also have "\<dots> = ?eps * \<bar>d\<bar>"
    by simp
  finally have c1: "\<bar>?q * 60 - d\<bar> \<le> ?eps * \<bar>d\<bar>" .
  have "?eps * \<bar>d\<bar> \<le> 1 / 2 * \<bar>d\<bar>"
    by (intro mult_right_mono) (simp_all add: power_int_minus field_simps)
  with c1 have "\<bar>d\<bar> / 2 \<le> \<bar>?q * 60\<bar>" by linarith
  with big t0 have B: "?tiny \<le> \<bar>?q * 60\<bar>" by linarith
  have c2: "\<bar>fl (?q * 60) - ?q * 60\<bar> \<le> ?eps * \<bar>?q * 60\<bar>"
    using B by (rule fl_rel_error)
  have "\<bar>fl (?q * 60) - d\<bar> \<le> 3 * ?eps * \<bar>d\<bar>"
    using e0 e1 refl c1 c2 by (rule two_roundings)
  then show ?thesis
    by (simp only: fmul_def fdiv_def)
qed

lemma rhe_tie_down:
  assumes "x = of_int k + 1 / 2" and "even k"
  shows "round_half_even x = k"
proof -
  have f: "\<lfloor>x\<rfloor> = k"
    unfolding assms(1) by linarith
  show ?thesis
    unfolding round_half_even_def Let_def f using assms by simp
qed

lemma rhe_tie_even:
  assumes "\<bar>of_int (round_half_even x) - x\<bar> = 1 / 2"
  shows "even (round_half_even x)"
  using assms unfolding round_half_even_def Let_def
  by (auto split: if_splits)

lemma fl_hundredths_error:
  "\<bar>fl (of_int k / 100) - of_int k / 100\<bar> \<le> 2 powi (- 53) * \<bar>of_int k / 100\<bar>"
proof (cases "k = 0")
  case True
  then show ?thesis by (simp add: fl_zero)
next
  case False
  then have "1 \<le> \<bar>k\<bar>" by simp
  then have "1 \<le> \<bar>real_of_int k\<bar>" by (metis of_int_1_le_iff of_int_abs)
  then have a: "1 / 100 \<le> \<bar>real_of_int k / 100\<bar>" by simp
  have "(2::real) powi (- 1022) \<le> 2 powi (- 7)"
    by (rule power_int_increasing) simp_all
  also have "\<dots> \<le> 1 / 100" by simp
  finally have "2 powi (- 1022) \<le> \<bar>real_of_int k / 100\<bar>" using a by linarith
  then show ?thesis by (rule fl_rel_error)
qed

lemma py_round_hundredths:
  "py_round x 2 = fl (of_int (round_half_even (x * 100)) / 100)"
  by (simp add: py_round_def)

lemma py_round_2_close:
  "\<bar>py_round x 2 - x\<bar> \<le> 1 / 200 + 2 powi (- 53) * (\<bar>x\<bar> + 1 / 200)"
proof -
  let ?k = "round_half_even (x * 100)"
  have e: "\<bar>of_int ?k - x * 100\<bar> \<le> 1 / 2" by (rule rhe_error)
  have "of_int ?k / 100 - x = (of_int ?k - x * 100) / 100"
    by (simp add: diff_divide_distrib)
  then have "\<bar>of_int ?k / 100 - x\<bar> = \<bar>of_int ?k - x * 100\<bar> / 100"
    by (simp only: abs_divide)
  with e have d: "\<bar>of_int ?k / 100 - x\<bar> \<le> 1 / 200" by simp
  then have "\<bar>real_of_int ?k / 100\<bar> \<le> \<bar>x\<bar> + 1 / 200" by linarith
  then have "2 powi (- 53) * \<bar>real_of_int ?k / 100\<bar> \<le> 2 powi (- 53) * (\<bar>x\<bar> + 1 / 200)"
    by (intro mult_left_mono) simp_all
  with fl_hundredths_error[of ?k] d show ?thesis
    unfolding py_round_hundredths by linarith
qed

subsection \<open>Values of the float arithmetic\<close>

lemma fl_15: "fl 15 = 15"
  by (rule fl_exact[where e = 3 and k = "15 * 2 ^ 49"]) simp_all

lemma fl_30: "fl 30 = 30"
  by (rule fl_exact[where e = 4 and k = "30 * 2 ^ 48"]) simp_all

lemma fl_60: "fl 60 = 60"
  by (rule fl_exact[where e = 5 and k = "60 * 2 ^ 47"]) simp_all

lemma fl_quarter: "fl (1 / 4) = 1 / 4"
  by (rule fl_exact[where e = "- 2" and k = "2 ^ 52"]) simp_all

lemma fl_half: "fl (1 / 2) = 1 / 2"
  by (rule fl_exact[where e = "- 1" and k = "2 ^ 52"]) simp_all

lemma fl_1: "fl 1 = 1"
  by (rule fl_exact[where e = 0 and k = "2 ^ 52"]) simp_all

lemma fl_2: "fl 2 = 2"
  by (rule fl_exact[where e = 1 and k = "2 ^ 52"]) simp_all

lemma py_round_15: "py_round 15 n = 15"
proof -
  have "(15::real) * 10 ^ n = of_int (15 * 10 ^ n)" by simp
  then have "round_half_even (15 * 10 ^ n) = 15 * 10 ^ n"
    by (simp only: rhe_of_int)
  then show ?thesis by (simp add: py_round_def fl_15)
qed

lemma py_round_30: "py_round 30 n = 30"
proof -
  have "(30::real) * 10 ^ n = of_int (30 * 10 ^ n)" by simp
  then have "round_half_even (30 * 10 ^ n) = 30 * 10 ^ n"
    by (simp only: rhe_of_int)
  then show ?thesis by (simp add: py_round_def fl_30)
qed

lemma py_round_60: "py_round 60 n = 60"
proof -
  have "(60::real) * 10 ^ n = of_int (60 * 10 ^ n)" by simp
  then have "round_half_even (60 * 10 ^ n) = 60 * 10 ^ n"
    by (simp only: rhe_of_int)
  then show ?thesis by (simp add: py_round_def fl_60)
qed

lemma eta_15: "fmul (fdiv 15 60) 60 = 15"
  by (simp add: fmul_def fdiv_def fl_quarter fl_15)

lemma eta_30: "fmul (fdiv 30 60) 60 = 30"
  by (simp add: fmul_def fdiv_def fl_half fl_30)

lemma eta_60: "fmul (fdiv 60 60) 60 = 60"
  by (simp add: fmul_def fdiv_def fl_1 fl_60)

lemma fdiv_d195: "fdiv d195 60 = 4683743612465316 / 2 ^ 57"
proof -
  have "fl (d195 / 60) = of_int 4683743612465316 * 2 powi (- 5 - 52)"
    by (rule fl_value) (simp_all add: d195_def)
  also have "\<dots> = 4683743612465316 / 2 ^ 57"
    by simp
  finally show ?thesis
    by (simp only: fdiv_def)
qed

lemma eta_d195: "fmul (fdiv d195 60) 60 = 8782019273372468 / 2 ^ 52"
proof -
  have "fl (4683743612465316 / 2 ^ 57 * 60) = of_int 8782019273372468 * 2 powi (0 - 52)"
    by (rule fl_value_tie) simp_all
  also have "\<dots> = 8782019273372468 / 2 ^ 52"
    by simp
  finally show ?thesis
    by (simp only: fmul_def fdiv_d195)
qed

lemma eta_d195_differs: "fmul (fdiv d195 60) 60 \<noteq> d195"
  unfolding eta_d195 by (simp add: d195_def)

lemma py_round_d195_2: "py_round d195 2 = d195"
proof -
  have r: "round_half_even (d195 * 10 ^ 2) = 195"
    by (rule rhe_eval) (simp_all add: d195_def)
  have "fl (real_of_int 195 / 10 ^ 2) = of_int 8782019273372467 * 2 powi (0 - 52)"
    by (rule fl_value) simp_all
  also have "\<dots> = d195"
    by (simp add: d195_def)
  finally show ?thesis
    by (simp only: py_round_def r)
qed

lemma py_round_d195_1: "py_round d195 1 = 8556839292003942 / 2 ^ 52"
proof -
  have r: "round_half_even (d195 * 10 ^ 1) = 19"
    by (rule rhe_eval) (simp_all add: d195_def)
  have "fl (real_of_int 19 / 10 ^ 1) = of_int 8556839292003942 * 2 powi (0 - 52)"
    by (rule fl_value) simp_all
  also have "\<dots> = 8556839292003942 / 2 ^ 52"
    by simp
  finally show ?thesis
    by (simp only: py_round_def r)
qed

lemma py_round_eta_d195: "py_round (fmul (fdiv d195 60) 60) 1 = 2"
proof -
  have r: "round_half_even (8782019273372468 / 2 ^ 52 * 10 ^ 1) = 20"
    by (rule rhe_eval) simp_all
  have "fl (real_of_int 20 / 10 ^ 1) = 2"
    using fl_2 by simp
  then show ?thesis
    by (simp only: py_round_def eta_d195 r)
qed

lemma fdiv_eighth: "fdiv (1 / 8) 60 = 4803839602528529 / 2 ^ 61"
proof -
  have "fl (1 / 8 / 60) = of_int 4803839602528529 * 2 powi (- 9 - 52)"
    by (rule fl_value) simp_all
  also have "\<dots> = 4803839602528529 / 2 ^ 61"
    by simp
  finally show ?thesis
    by (simp only: fdiv_def)
qed

lemma eta_eighth: "fmul (fdiv (1 / 8) 60) 60 = 1 / 8"
proof -
  have "fl (4803839602528529 / 2 ^ 61 * 60) = of_int 9007199254740992 * 2 powi (- 4 - 52)"
    by (rule fl_value) simp_all
  also have "\<dots> = 1 / 8"
    by simp
  finally show ?thesis
    by (simp only: fmul_def fdiv_eighth)
qed

lemma py_round_eighth_2: "py_round (1 / 8) 2 = 8646911284551352 / 2 ^ 56"
proof -
  have r: "round_half_even (1 / 8 * 10 ^ 2) = 12"
    by (rule rhe_tie_down) simp_all
  have "fl (real_of_int 12 / 10 ^ 2) = of_int 8646911284551352 * 2 powi (- 4 - 52)"
    by (rule fl_value) simp_all
  also have "\<dots> = 8646911284551352 / 2 ^ 56"
    by simp
  finally show ?thesis
    by (simp only: py_round_def r)
qed

lemma py_round_eighth_1: "py_round (1 / 8) 1 = 7205759403792794 / 2 ^ 56"
proof -
  have r: "round_half_even (1 / 8 * 10 ^ 1) = 1"
    by (rule rhe_eval) simp_all
  have "fl (real_of_int 1 / 10 ^ 1) = of_int 7205759403792794 * 2 powi (- 4 - 52)"
    by (rule fl_value) simp_all
  also have "\<dots> = 7205759403792794 / 2 ^ 56"
    by simp
  finally show ?thesis
    by (simp only: py_round_def r)
qed

section \<open>Sorting and the least element\<close>

lemma sorted_py_eq_Nil: "sorted_py key xs = [] \<longleftrightarrow> xs = []"
proof -
  have "length (sorted_py key xs) = length xs"
    by (simp add: sorted_py_def)
  then show ?thesis
    by (metis length_0_conv)
qed

lemma sorted_sorted_py: "sorted (map key (sorted_py key xs))"
  by (simp add: sorted_py_def)

lemma set_sorted_py: "set (sorted_py key xs) = set xs"
  by (simp add: sorted_py_def)

lemma length_sorted_py: "length (sorted_py key xs) = length xs"
  by (simp add: sorted_py_def)

lemma sorted_py_stable:
  "filter (\<lambda>c. key c = k) (sorted_py key xs) = filter (\<lambda>c. key c = k) xs"
  unfolding sorted_py_def by (rule sort_key_stable)

lemma sorted_take5: "sorted (map key xs) \<Longrightarrow> sorted (map key (take 5 xs))"
  by (simp add: take_map[symmetric])

lemma sorted_map_mono:
  assumes "sorted (map f xs)" and "\<And>x y. x \<le> y \<Longrightarrow> g x \<le> g y"
  shows "sorted (map (\<lambda>x. g (f x)) xs)"
  using assms(1) by (induction xs) (auto intro: assms(2))

lemma map_insort_key: "map f (insort_key f x xs) = insort (f x) (map f xs)"
  by (induction xs) simp_all

lemma map_sort_key: "map f (sort_key f xs) = sort (map f xs)"
  by (induction xs) (simp_all add: map_insort_key)

lemma take_sorted_least:
  assumes "sorted (map key ys)" and "c \<in> set (take n ys)" and "c' \<in> set ys"
    and "c' \<notin> set (take n ys)"
  shows "key c \<le> key c'"
proof -
  have "set ys = set (take n ys) \<union> set (drop n ys)"
    by (metis append_take_drop_id set_append)
  with assms(3,4) have d: "c' \<in> set (drop n ys)" by simp
  have "sorted (map key (take n ys) @ map key (drop n ys))"
    using assms(1) by (simp flip: map_append)
  then have "\<forall>x \<in> set (map key (take n ys)). \<forall>y \<in> set (map key (drop n ys)). x \<le> y"
    by (simp only: sorted_append) simp
  with assms(2) d show ?thesis by simp
qed

lemma hd_filter_hd: "ys \<noteq> [] \<Longrightarrow> P (hd ys) \<Longrightarrow> hd (filter P ys) = hd ys"
  by (cases ys) simp_all

lemma key_hd_sorted_Min:
  assumes "ys \<noteq> []" and "sorted (map key ys)"
  shows "key (hd ys) = Min (key ` set ys)"
proof (cases ys)
  case Nil
  with assms(1) show ?thesis by simp
next
  case (Cons y ys')
  with assms(2) have le: "\<forall>z \<in> set ys'. key y \<le> key z" by simp
  have "Min (key ` set ys) = key y"
  proof (rule Min_eqI)
    show "finite (key ` set ys)" by simp
    show "key y \<in> key ` set ys" using Cons by simp
    fix k assume "k \<in> key ` set ys"
    then show "key y \<le> k" using Cons le by auto
  qed
  with Cons show ?thesis by simp
qed

lemma hd_sorted_py_first_least:
  assumes "xs \<noteq> []"
  shows "hd (sorted_py key xs) = hd (filter (\<lambda>c. key c = Min (key ` set xs)) xs)"
proof -
  let ?ys = "sorted_py key xs"
  have ne: "?ys \<noteq> []" using assms by (simp add: sorted_py_eq_Nil)
  have "key (hd ?ys) = Min (key ` set ?ys)"
    using ne sorted_sorted_py by (rule key_hd_sorted_Min)
  then have k: "key (hd ?ys) = Min (key ` set xs)"
    by (simp only: set_sorted_py)
  have "hd (filter (\<lambda>c. key c = Min (key ` set xs)) ?ys) = hd ?ys"
    using ne k by (rule hd_filter_hd)
  then show ?thesis
    by (simp only: sorted_py_stable)
qed

lemma min_from_least:
  "\<forall>x \<in> set xs. key b \<le> key x \<Longrightarrow> min_from key b xs = b"
  by (induction xs) auto

lemma min_py_sorted:
  assumes "xs \<noteq> []" and "sorted (map key xs)"
  shows "min_py key xs = Some (hd xs)"
proof (cases xs)
  case Nil
  with assms(1) show ?thesis by simp
next
  case (Cons b ys)
  with assms(2) have "\<forall>x \<in> set ys. key b \<le> key x" by simp
  then have "min_from key b ys = b" by (rule min_from_least)
  with Cons show ?thesis by (simp add: min_py_def)
qed

section \<open>The selection step\<close>

lemma within_radius_eq:
  "within_radius w oc m stations =
     filter (\<lambda>c. cand_distance_km c \<le> m) (stations_with_dist w oc stations)"
  by (induction stations) (simp_all add: stations_with_dist_def Let_def)

lemma within_radius_empty_iff:
  "within_radius w oc m stations = [] \<longleftrightarrow>
     (\<forall>s \<in> set stations. \<not> haversine_km w oc (station_coords s) \<le> m)"
  by (induction stations) (simp_all add: Let_def)

lemma within_radius_bound:
  "c \<in> set (within_radius w oc m stations) \<Longrightarrow> cand_distance_km c \<le> m"
  by (simp add: within_radius_eq)

lemma distances_with_dist:
  "map cand_distance_km (stations_with_dist w oc stations) =
     map (\<lambda>s. haversine_km w oc (station_coords s)) stations"
  by (simp add: stations_with_dist_def comp_def)

lemma cand_station_with_dist:
  "c \<in> set (stations_with_dist w oc stations) \<Longrightarrow> cand_station c \<in> set stations"
  by (auto simp: stations_with_dist_def)

lemma select_candidates_nonempty:
  "stations \<noteq> [] \<Longrightarrow> select_candidates w oc m stations \<noteq> []"
  unfolding select_candidates_def Let_def
  by (simp add: sorted_py_eq_Nil stations_with_dist_def)

lemma select_candidates_pool:
  "select_candidates w oc m stations = take 5 (sorted_py cand_distance_km (pool w oc m stations))"
  by (simp add: select_candidates_def pool_def Let_def)

lemma pool_nonempty: "stations \<noteq> [] \<Longrightarrow> pool w oc m stations \<noteq> []"
  by (simp add: pool_def stations_with_dist_def)

lemma pool_subset: "set (pool w oc m stations) \<subseteq> set (stations_with_dist w oc stations)"
  by (auto simp: pool_def within_radius_eq)

lemma select_candidates_sorted:
  "sorted (map cand_distance_km (select_candidates w oc m stations))"
  unfolding select_candidates_pool by (rule sorted_take5) (rule sorted_sorted_py)

lemma select_candidates_length: "length (select_candidates w oc m stations) \<le> 5"
  by (simp add: select_candidates_pool)

lemma select_candidates_subset:
  "set (select_candidates w oc m stations) \<subseteq> set (pool w oc m stations)"
proof -
  have "set (take 5 (sorted_py cand_distance_km (pool w oc m stations)))
      \<subseteq> set (sorted_py cand_distance_km (pool w oc m stations))"
    by (rule set_take_subset)
  then show ?thesis by (simp add: select_candidates_pool set_sorted_py)
qed

lemma set_select_events:
  "set (select_events w oc m stations) =
     (\<lambda>s. Geodesic (lat oc, lon oc) (latitude s, longitude s)) ` set stations"
  by (simp add: select_events_def Let_def)

lemma charger_filter_Some:
  "p \<noteq> [] \<Longrightarrow>
   charger_filter w (Some p) stations =
     filter (\<lambda>s. lower w (charger_type s) = lower w p) stations"
  by (simp add: charger_filter_def)

lemma charger_filter_empty_string: "charger_filter w (Some []) stations = stations"
  by (simp add: charger_filter_def)

section \<open>The endpoint\<close>

lemma geocode_address_None:
  "geocode_address w q = None \<longleftrightarrow>
     geolocator_geocode w q = No_match \<or> geolocator_geocode w q = Provider_error"
  by (simp add: geocode_address_def split: geo_outcome.splits)

lemma sorted_summaries:
  assumes "sorted (map cand_distance_km cands)"
  shows "sorted (map sum_distance_km (map summarize cands))"
proof -
  have "sorted (map (\<lambda>c. py_round (cand_distance_km c) 2) cands)"
    using assms by (rule sorted_map_mono) (rule py_round_mono)
  then show ?thesis by (simp add: summarize_def comp_def)
qed

lemma build_response_sorted:
  assumes "cands \<noteq> []" and "sorted (map cand_distance_km cands)"
  shows "build_response oc cands =
     Inr \<lparr>resp_origin = oc,
          best_station = cand_station (hd cands),
          distance_km = py_round (cand_distance_km (hd cands)) 2,
          eta_minutes = py_round (fmul (fdiv (cand_distance_km (hd cands)) 60) 60) 1,
          route_polyline =
            [[lat oc, lon oc],
             [latitude (cand_station (hd cands)), longitude (cand_station (hd cands))]],
          candidates = map summarize cands\<rparr>"
  by (simp add: build_response_def min_py_sorted[OF assms])

lemma build_response_fields:
  assumes "build_response oc cands = Inr resp"
  shows "resp_origin resp = oc"
    and "route_polyline resp =
      [[lat oc, lon oc], [latitude (best_station resp), longitude (best_station resp)]]"
    and "candidates resp = map summarize cands"
    and "cands \<noteq> []"
  using assms
  by (auto simp: build_response_def min_py_def split: option.splits list.splits)

lemma optimize_route_cases:
  "optimize_route w req =
     (case geocode_address w (origin req) of
        None \<Rightarrow> ([Geocode (origin req)], Inl (HTTPException 404 ''Origin not found''))
      | Some oc \<Rightarrow>
          if charger_filter w (preferred_charger req) (list_stations w) = []
          then ([Geocode (origin req), ListStations],
                Inl (HTTPException 404 ''No stations available for the given filter''))
          else ([Geocode (origin req), ListStations]
                  @ select_events w oc (max_distance_km req)
                      (charger_filter w (preferred_charger req) (list_stations w)),
                build_response oc
                  (select_candidates w oc (max_distance_km req)
                     (charger_filter w (preferred_charger req) (list_stations w)))))"
  by (simp add: optimize_route_def Let_def split: option.splits)

lemma optimize_route_success:
  assumes "snd (optimize_route w req) = Inr resp"
  obtains oc where "geocode_address w (origin req) = Some oc"
    and "charger_filter w (preferred_charger req) (list_stations w) \<noteq> []"
    and "build_response oc
           (select_candidates w oc (max_distance_km req)
              (charger_filter w (preferred_charger req) (list_stations w))) = Inr resp"
  using assms unfolding optimize_route_cases
  by (auto split: option.splits if_splits)

lemma optimize_route_found:
  assumes "geocode_address w (origin req) = Some oc"
    and "charger_filter w (preferred_charger req) (list_stations w) \<noteq> []"
  shows "snd (optimize_route w req) =
     build_response oc
       (select_candidates w oc (max_distance_km req)
          (charger_filter w (preferred_charger req) (list_stations w)))"
  using assms by (simp add: optimize_route_cases)

lemma optimize_route_no_stations:
  assumes "geocode_address w (origin req) = Some oc"
    and "charger_filter w (preferred_charger req) (list_stations w) = []"
  shows "optimize_route w req =
     ([Geocode (origin req), ListStations],
      Inl (HTTPException 404 ''No stations available for the given filter''))"
  using assms by (simp add: optimize_route_cases)

lemma optimize_route_request:
  assumes "snd (optimize_route w req) = Inr resp"
    and "geocode_address w (origin req) = Some oc"
  shows "request_stations w req \<noteq> []"
    and "build_response oc (request_candidates w req oc) = Inr resp"
proof -
  from assms(1) obtain oc' where g: "geocode_address w (origin req) = Some oc'"
    and ne: "charger_filter w (preferred_charger req) (list_stations w) \<noteq> []"
    and b: "build_response oc'
          (select_candidates w oc' (max_distance_km req)
             (charger_filter w (preferred_charger req) (list_stations w))) = Inr resp"
    by (rule optimize_route_success)
  from g assms(2) have "oc' = oc" by simp
  with ne b show "request_stations w req \<noteq> []"
    and "build_response oc (request_candidates w req oc) = Inr resp"
    by (simp_all add: request_stations_def request_candidates_def)
qed

lemma optimize_route_events:
  assumes "Geodesic a b \<in> set (fst (optimize_route w req))"
  shows "\<exists>s \<in> set (request_stations w req). b = (latitude s, longitude s)"
  using assms unfolding optimize_route_cases request_stations_def
  by (auto simp: set_select_events split: option.splits if_splits)

lemma request_candidates_facts:
  assumes "request_stations w req \<noteq> []"
  shows "request_candidates w req oc \<noteq> []"
    and "sorted (map cand_distance_km (request_candidates w req oc))"
    and "request_candidates w req oc =
      take 5 (sorted_py cand_distance_km (request_pool w req oc))"
    and "request_pool w req oc \<noteq> []"
    and "set (request_candidates w req oc) \<subseteq> set (request_pool w req oc)"
    and "set (request_pool w req oc) \<subseteq>
      set (stations_with_dist w oc (request_stations w req))"
proof -
  show "request_candidates w req oc \<noteq> []"
    unfolding request_candidates_def using assms by (rule select_candidates_nonempty)
  show "sorted (map cand_distance_km (request_candidates w req oc))"
    unfolding request_candidates_def by (rule select_candidates_sorted)
  show "request_candidates w req oc =
      take 5 (sorted_py cand_distance_km (request_pool w req oc))"
    unfolding request_candidates_def request_pool_def by (rule select_candidates_pool)
  show "request_pool w req oc \<noteq> []"
    unfolding request_pool_def using assms by (rule pool_nonempty)
  show "set (request_candidates w req oc) \<subseteq> set (request_pool w req oc)"
    unfolding request_candidates_def request_pool_def by (rule select_candidates_subset)
  show "set (request_pool w req oc) \<subseteq>
      set (stations_with_dist w oc (request_stations w req))"
    unfolding request_pool_def by (rule pool_subset)
qed

lemma request_candidate_station:
  assumes "request_stations w req \<noteq> []" and "c \<in> set (request_candidates w req oc)"
  shows "cand_station c \<in> set (request_stations w req)"
proof -
  have "c \<in> set (stations_with_dist w oc (request_stations w req))"
    using request_candidates_facts(5,6)[OF assms(1), of oc] assms(2) by blast
  then show ?thesis by (rule cand_station_with_dist)
qed

section \<open>Runs in the small world\<close>

lemma demo_lower: "lower demo_world = ascii_lower"
  by (simp add: demo_world_def)

lemma lower_ccs:
  "ascii_lower ''CCS'' = ''ccs''" "ascii_lower ''ccs'' = ''ccs''"
  "ascii_lower ''Type2'' = ''type2''" "ascii_lower ''CHAdeMO'' = ''chademo''"
  by code_simp+

lemma demo_list_stations: "list_stations demo_world = demo_stations"
  by (simp add: list_stations_def demo_world_def demo_stations_def)

lemma demo_geocode_here: "geocode_address demo_world ''here'' = Some demo_origin"
  by (simp add: geocode_address_def demo_world_def demo_geocode_def demo_origin_def)

lemma demo_dist:
  "haversine_km demo_world demo_origin (station_coords (station_a\<lparr>station_id := Some ''a''\<rparr>)) = 60"
  "haversine_km demo_world demo_origin (station_coords (station_b\<lparr>station_id := Some ''b''\<rparr>)) = 15"
  "haversine_km demo_world demo_origin (station_coords (station_c\<lparr>station_id := Some ''c''\<rparr>)) = 30"
  by (simp_all add: demo_world_def demo_origin_def haversine_km_def station_coords_def
      station_a_def station_b_def station_c_def)

lemma demo_within_50:
  "within_radius demo_world demo_origin 50 demo_stations = [cand_b, cand_c]"
  by (simp add: demo_stations_def demo_world_def demo_origin_def haversine_km_def
      station_coords_def station_a_def station_b_def station_c_def cand_b_def cand_c_def)

lemma demo_select_50:
  "select_candidates demo_world demo_origin 50 demo_stations = [cand_b, cand_c]"
  by (simp add: select_candidates_def demo_within_50 sorted_py_def cand_b_def cand_c_def)

lemma demo_within_10: "within_radius demo_world demo_origin 10 demo_stations = []"
  by (simp add: demo_stations_def demo_dist)

lemma demo_select_10:
  "select_candidates demo_world demo_origin 10 demo_stations = [cand_b, cand_c, cand_a]"
  by (simp add: select_candidates_def demo_within_10 sorted_py_def stations_with_dist_def)
    (simp add: demo_stations_def demo_dist cand_a_def cand_b_def cand_c_def)

lemma demo_filter_none: "charger_filter demo_world None demo_stations = demo_stations"
  by (simp add: charger_filter_def)

lemma demo_filter_ccs:
  "charger_filter demo_world (Some ''ccs'') demo_stations =
     [station_a\<lparr>station_id := Some ''a''\<rparr>, station_c\<lparr>station_id := Some ''c''\<rparr>]"
  by (simp add: charger_filter_def demo_lower demo_stations_def station_a_def station_b_def
      station_c_def lower_ccs)

lemma demo_select_ccs:
  "select_candidates demo_world demo_origin 50
     [station_a\<lparr>station_id := Some ''a''\<rparr>, station_c\<lparr>station_id := Some ''c''\<rparr>] = [cand_c]"
  by (simp add: select_candidates_def demo_dist sorted_py_def cand_c_def)

lemma summarize_a: "summarize cand_a = summary_a"
  by (simp add: summarize_def cand_a_def summary_a_def station_a_def py_round_60)

lemma summarize_b: "summarize cand_b = summary_b"
  by (simp add: summarize_def cand_b_def summary_b_def station_b_def py_round_15)

lemma summarize_c: "summarize cand_c = summary_c"
  by (simp add: summarize_def cand_c_def summary_c_def station_c_def py_round_30)

lemma demo_build_bc:
  "build_response demo_origin [cand_b, cand_c] =
     Inr (demo_response (station_b\<lparr>station_id := Some ''b''\<rparr>) 15 [summary_b, summary_c])"
proof -
  have "sorted (map cand_distance_km [cand_b, cand_c])"
    by (simp add: cand_b_def cand_c_def)
  then show ?thesis
    by (simp add: build_response_sorted summarize_b summarize_c demo_response_def)
      (simp add: cand_b_def py_round_15 eta_15 demo_origin_def station_b_def)
qed

lemma demo_build_c:
  "build_response demo_origin [cand_c] =
     Inr (demo_response (station_c\<lparr>station_id := Some ''c''\<rparr>) 30 [summary_c])"
proof -
  have "sorted (map cand_distance_km [cand_c])" by simp
  then show ?thesis
    by (simp add: build_response_sorted summarize_c demo_response_def)
      (simp add: cand_c_def py_round_30 eta_30 demo_origin_def station_c_def)
qed

lemma demo_stations_nonempty: "demo_stations \<noteq> []"
  by (simp add: demo_stations_def)

lemma demo_run:
  assumes "charger_filter demo_world pref demo_stations = stations" and "stations \<noteq> []"
  shows "snd (optimize_route demo_world (demo_request m pref)) =
     build_response demo_origin (select_candidates demo_world demo_origin m stations)"
proof -
  have g: "geocode_address demo_world (origin (demo_request m pref)) = Some demo_origin"
    by (simp add: demo_request_def demo_geocode_here)
  have f: "charger_filter demo_world (preferred_charger (demo_request m pref)) (list_stations demo_world)
      = stations"
    by (simp add: demo_request_def demo_list_stations assms(1))
  have m: "max_distance_km (demo_request m pref) = m"
    by (simp add: demo_request_def)
  have ne: "charger_filter demo_world (preferred_charger (demo_request m pref)) (list_stations demo_world)
      \<noteq> []"
    using assms(2) by (simp only: f not_False_eq_True)
  show ?thesis
    using optimize_route_found[OF g ne] by (simp only: f m)
qed

lemma demo_run_50:
  "snd (optimize_route demo_world (demo_request 50 None)) =
     Inr (demo_response (station_b\<lparr>station_id := Some ''b''\<rparr>) 15 [summary_b, summary_c])"
  using demo_run[OF demo_filter_none demo_stations_nonempty, of 50]
  by (simp only: demo_select_50 demo_build_bc)

lemma demo_run_ccs:
  "snd (optimize_route demo_world (demo_request 50 (Some ''ccs''))) =
     Inr (demo_response (station_c\<lparr>station_id := Some ''c''\<rparr>) 30 [summary_c])"
proof -
  have "[station_a\<lparr>station_id := Some ''a''\<rparr>, station_c\<lparr>station_id := Some ''c''\<rparr>] \<noteq> []"
    by simp
  from demo_run[OF demo_filter_ccs this, of 50] show ?thesis
    by (simp only: demo_select_ccs demo_build_c)
qed

lemma demo_run_empty_string:
  "snd (optimize_route demo_world (demo_request 50 (Some ''''))) =
     Inr (demo_response (station_b\<lparr>station_id := Some ''b''\<rparr>) 15 [summary_b, summary_c])"
  using demo_run[OF charger_filter_empty_string demo_stations_nonempty, of 50]
  by (simp only: demo_select_50 demo_build_bc)

lemma demo_request_50: "request_candidates demo_world (demo_request 50 None) demo_origin
    = [cand_b, cand_c]"
  by (simp add: request_candidates_def request_stations_def demo_request_def
      demo_list_stations demo_filter_none demo_select_50)

subsection \<open>Runs in the second world\<close>

lemma near_list_stations:
  "list_stations near_world = [station_a\<lparr>station_id := Some ''a''\<rparr>]"
  by (simp add: list_stations_def near_world_def)

lemma near_geocode_here: "geocode_address near_world ''here'' = Some demo_origin"
  by (simp add: geocode_address_def near_world_def demo_geocode_def demo_origin_def)

lemma near_select:
  "select_candidates near_world demo_origin 50 [station_a\<lparr>station_id := Some ''a''\<rparr>]
     = [near_candidate]"
proof -
  have "d195 \<le> 50" by (simp add: d195_def)
  then show ?thesis
    by (simp add: select_candidates_def haversine_km_def near_world_def sorted_py_def
        near_candidate_def)
qed

lemma near_request_candidates:
  "request_candidates near_world (demo_request 50 None) demo_origin = [near_candidate]"
  by (simp add: request_candidates_def request_stations_def demo_request_def
      near_list_stations charger_filter_def near_select)

lemma near_build: "build_response demo_origin [near_candidate] = Inr near_response"
proof -
  have "sorted (map cand_distance_km [near_candidate])" by simp
  then show ?thesis
    by (simp add: build_response_sorted summarize_def)
      (simp add: near_candidate_def near_response_def py_round_d195_2
        py_round_eta_d195[unfolded One_nat_def] demo_origin_def station_a_def)
qed

lemma near_run: "snd (optimize_route near_world (demo_request 50 None)) = Inr near_response"
proof -
  have g: "geocode_address near_world (origin (demo_request 50 None)) = Some demo_origin"
    by (simp add: demo_request_def near_geocode_here)
  have f: "charger_filter near_world (preferred_charger (demo_request 50 None)) (list_stations near_world)
      = [station_a\<lparr>station_id := Some ''a''\<rparr>]"
    by (simp add: demo_request_def near_list_stations charger_filter_def)
  have m: "max_distance_km (demo_request 50 None) = 50"
    by (simp add: demo_request_def)
  have ne: "charger_filter near_world (preferred_charger (demo_request 50 None)) (list_stations near_world)
      \<noteq> []"
    unfolding f by simp
  show ?thesis
    using optimize_route_found[OF g ne] by (simp only: f m near_select near_build)
qed

subsection \<open>Runs in the third world\<close>

lemma tie_list_stations:
  "list_stations tie_world =
     [station_b\<lparr>station_id := Some ''b''\<rparr>, station_a\<lparr>station_id := Some ''a''\<rparr>]"
  by (simp add: list_stations_def tie_world_def)

lemma tie_geocode_here: "geocode_address tie_world ''here'' = Some demo_origin"
  by (simp add: geocode_address_def tie_world_def demo_geocode_def demo_origin_def)

lemma tie_pool:
  "pool tie_world demo_origin 50
     [station_b\<lparr>station_id := Some ''b''\<rparr>, station_a\<lparr>station_id := Some ''a''\<rparr>]
     = tie_candidates"
  by (simp add: pool_def haversine_km_def tie_world_def tie_candidates_def Let_def)

lemma tie_select:
  "select_candidates tie_world demo_origin 50
     [station_b\<lparr>station_id := Some ''b''\<rparr>, station_a\<lparr>station_id := Some ''a''\<rparr>]
     = tie_candidates"
  by (simp add: select_candidates_pool tie_pool) (simp add: tie_candidates_def sorted_py_def)

lemma tie_request_stations:
  "request_stations tie_world (demo_request 50 None) =
     [station_b\<lparr>station_id := Some ''b''\<rparr>, station_a\<lparr>station_id := Some ''a''\<rparr>]"
  by (simp add: request_stations_def demo_request_def tie_list_stations charger_filter_def)

lemma tie_request_candidates:
  "request_candidates tie_world (demo_request 50 None) demo_origin = tie_candidates"
  by (simp only: request_candidates_def tie_request_stations)
    (simp add: demo_request_def tie_select)

lemma tie_request_pool:
  "request_pool tie_world (demo_request 50 None) demo_origin = tie_candidates"
  by (simp only: request_pool_def tie_request_stations)
    (simp add: demo_request_def tie_pool)

lemma tie_build: "build_response demo_origin tie_candidates = Inr tie_response"
proof -
  have "tie_candidates \<noteq> []" and "sorted (map cand_distance_km tie_candidates)"
    by (simp_all add: tie_candidates_def)
  then have "build_response demo_origin tie_candidates =
     Inr \<lparr>resp_origin = demo_origin,
          best_station = cand_station (hd tie_candidates),
          distance_km = py_round (cand_distance_km (hd tie_candidates)) 2,
          eta_minutes = py_round (fmul (fdiv (cand_distance_km (hd tie_candidates)) 60) 60) 1,
          route_polyline =
            [[lat demo_origin, lon demo_origin],
             [latitude (cand_station (hd tie_candidates)),
              longitude (cand_station (hd tie_candidates))]],
          candidates = map summarize tie_candidates\<rparr>"
    by (rule build_response_sorted)
  also have "\<dots> = Inr tie_response"
    by (simp add: tie_candidates_def tie_response_def summarize_def py_round_eighth_2
        eta_eighth py_round_eighth_1[unfolded One_nat_def] demo_origin_def station_a_def
        station_b_def)
  finally show ?thesis .
qed

lemma tie_run: "snd (optimize_route tie_world (demo_request 50 None)) = Inr tie_response"
proof -
  have g: "geocode_address tie_world (origin (demo_request 50 None)) = Some demo_origin"
    by (simp add: demo_request_def tie_geocode_here)
  have f: "charger_filter tie_world (preferred_charger (demo_request 50 None))
      (list_stations tie_world) =
      [station_b\<lparr>station_id := Some ''b''\<rparr>, station_a\<lparr>station_id := Some ''a''\<rparr>]"
    using tie_request_stations by (simp only: request_stations_def)
  have m: "max_distance_km (demo_request 50 None) = 50"
    by (simp add: demo_request_def)
  have ne: "charger_filter tie_world (preferred_charger (demo_request 50 None))
      (list_stations tie_world) \<noteq> []"
    unfolding f by simp
  show ?thesis
    using optimize_route_found[OF g ne] by (simp only: f m tie_select tie_build)
qed

section \<open>The claims of the specification\<close>

text \<open>
  Claim C1. If some station is within \<open>m\<close> of the origin, every selected candidate is
  within \<open>m\<close>. If none is, the radius is ignored: the selection is the first five of all
  stations sorted by distance, so its distances are the five smallest of all distances
  and no station left out is nearer than a selected one. In both cases the selection is
  sorted ascending by distance, has at most five entries, and holds only stations of the
  list with their computed distances.
\<close>

theorem radius_else_globally_nearest:
  "((\<exists>s \<in> set stations. haversine_km w oc (station_coords s) \<le> m) \<longrightarrow>
      (\<forall>c \<in> set (select_candidates w oc m stations). cand_distance_km c \<le> m)) \<and>
   ((\<forall>s \<in> set stations. \<not> haversine_km w oc (station_coords s) \<le> m) \<longrightarrow>
      select_candidates w oc m stations =
        take 5 (sorted_py cand_distance_km (stations_with_dist w oc stations)) \<and>
      map cand_distance_km (select_candidates w oc m stations) =
        take 5 (sort (map (\<lambda>s. haversine_km w oc (station_coords s)) stations)) \<and>
      length (select_candidates w oc m stations) = min 5 (length stations) \<and>
      (\<forall>c \<in> set (select_candidates w oc m stations).
         \<forall>c' \<in> set (stations_with_dist w oc stations).
           c' \<notin> set (select_candidates w oc m stations) \<longrightarrow>
           cand_distance_km c \<le> cand_distance_km c')) \<and>
   sorted (map cand_distance_km (select_candidates w oc m stations)) \<and>
   length (select_candidates w oc m stations) \<le> 5 \<and>
   set (select_candidates w oc m stations) \<subseteq> set (stations_with_dist w oc stations)"
proof (intro conjI impI)
  assume "\<exists>s \<in> set stations. haversine_km w oc (station_coords s) \<le> m"
  then have ne: "within_radius w oc m stations \<noteq> []"
    by (simp add: within_radius_empty_iff)
  then have p: "pool w oc m stations = within_radius w oc m stations"
    by (simp add: pool_def)
  show "\<forall>c \<in> set (select_candidates w oc m stations). cand_distance_km c \<le> m"
    using select_candidates_subset[of w oc m stations] within_radius_bound[of _ w oc m stations]
    unfolding p by blast
next
  assume none: "\<forall>s \<in> set stations. \<not> haversine_km w oc (station_coords s) \<le> m"
  then have e: "within_radius w oc m stations = []"
    by (simp only: within_radius_empty_iff)
  then have p: "pool w oc m stations = stations_with_dist w oc stations"
    by (simp add: pool_def)
  show s: "select_candidates w oc m stations =
      take 5 (sorted_py cand_distance_km (stations_with_dist w oc stations))"
    by (simp only: select_candidates_pool p)
  show "map cand_distance_km (select_candidates w oc m stations) =
      take 5 (sort (map (\<lambda>s. haversine_km w oc (station_coords s)) stations))"
    unfolding s sorted_py_def
    by (simp only: take_map[symmetric] map_sort_key distances_with_dist)
  show "length (select_candidates w oc m stations) = min 5 (length stations)"
    unfolding s by (simp add: length_sorted_py stations_with_dist_def)
  show "\<forall>c \<in> set (select_candidates w oc m stations).
      \<forall>c' \<in> set (stations_with_dist w oc stations).
        c' \<notin> set (select_candidates w oc m stations) \<longrightarrow>
        cand_distance_km c \<le> cand_distance_km c'"
  proof (intro ballI impI)
    fix c c'
    assume c: "c \<in> set (select_candidates w oc m stations)"
      and c': "c' \<in> set (stations_with_dist w oc stations)"
      and n: "c' \<notin> set (select_candidates w oc m stations)"
    let ?ys = "sorted_py cand_distance_km (stations_with_dist w oc stations)"
    have "sorted (map cand_distance_km ?ys)" by (rule sorted_sorted_py)
    moreover have "c \<in> set (take 5 ?ys)" using c unfolding s .
    moreover have "c' \<in> set ?ys" using c' unfolding set_sorted_py .
    moreover have "c' \<notin> set (take 5 ?ys)" using n unfolding s .
    ultimately show "cand_distance_km c \<le> cand_distance_km c'"
      by (rule take_sorted_least)
  qed
next
  show "sorted (map cand_distance_km (select_candidates w oc m stations))"
    by (rule select_candidates_sorted)
  show "length (select_candidates w oc m stations) \<le> 5"
    by (rule select_candidates_length)
  show "set (select_candidates w oc m stations) \<subseteq> set (stations_with_dist w oc stations)"
    using select_candidates_subset[of w oc m stations] pool_subset[of w oc m stations]
    by (rule subset_trans)
qed

theorem radius_else_globally_nearest_witness:
  "haversine_km demo_world demo_origin (station_coords (station_b\<lparr>station_id := Some ''b''\<rparr>)) \<le> 50 \<and>
   select_candidates demo_world demo_origin 50 demo_stations = [cand_b, cand_c] \<and>
   cand_distance_km cand_b \<le> 50 \<and> cand_distance_km cand_c \<le> 50 \<and>
   within_radius demo_world demo_origin 10 demo_stations = [] \<and>
   select_candidates demo_world demo_origin 10 demo_stations = [cand_b, cand_c, cand_a] \<and>
   map cand_distance_km [cand_b, cand_c, cand_a] = [15, 30, 60]"
proof -
  have near: "\<exists>s \<in> set demo_stations.
      haversine_km demo_world demo_origin (station_coords s) \<le> 50"
    by (simp add: demo_stations_def demo_dist)
  have far: "\<forall>s \<in> set demo_stations.
      \<not> haversine_km demo_world demo_origin (station_coords s) \<le> 10"
    by (simp add: demo_stations_def demo_dist)
  have a: "\<forall>c \<in> set (select_candidates demo_world demo_origin 50 demo_stations).
      cand_distance_km c \<le> 50"
    using radius_else_globally_nearest[of demo_stations demo_world demo_origin 50] near
    by blast
  have b: "map cand_distance_km (select_candidates demo_world demo_origin 10 demo_stations) =
      take 5 (sort (map (\<lambda>s. haversine_km demo_world demo_origin (station_coords s))
        demo_stations))"
    using radius_else_globally_nearest[of demo_stations demo_world demo_origin 10] far
    by blast
  show ?thesis
    using a b unfolding demo_select_50 demo_select_10
    by (simp add: demo_within_10 demo_dist cand_a_def cand_b_def cand_c_def)
qed

text \<open>
  Claim C2. The selection step returns at most five candidates, sorted non-decreasing by
  distance, in the radius branch and in the fallback branch alike; and in the response of
  every successful call the list \<open>candidates\<close> has at most five entries and is sorted
  non-decreasing by its rounded \<open>distance_km\<close>.
\<close>

theorem candidates_at_most_five_sorted:
  "length (select_candidates w oc m stations) \<le> 5 \<and>
   sorted (map cand_distance_km (select_candidates w oc m stations)) \<and>
   (snd (optimize_route w req) = Inr resp \<longrightarrow>
      length (candidates resp) \<le> 5 \<and> sorted (map sum_distance_km (candidates resp)))"
proof (intro conjI impI)
  show "length (select_candidates w oc m stations) \<le> 5"
    by (rule select_candidates_length)
  show "sorted (map cand_distance_km (select_candidates w oc m stations))"
    by (rule select_candidates_sorted)
next
  assume ok: "snd (optimize_route w req) = Inr resp"
  then obtain oc' where
    ne: "charger_filter w (preferred_charger req) (list_stations w) \<noteq> []" and
    b: "build_response oc'
          (select_candidates w oc' (max_distance_km req)
             (charger_filter w (preferred_charger req) (list_stations w))) = Inr resp"
    by (rule optimize_route_success)
  let ?sel = "select_candidates w oc' (max_distance_km req)
      (charger_filter w (preferred_charger req) (list_stations w))"
  have s: "sorted (map cand_distance_km ?sel)" by (rule select_candidates_sorted)
  have n: "?sel \<noteq> []" using ne by (rule select_candidates_nonempty)
  have c: "candidates resp = map summarize ?sel"
    using b by (simp add: build_response_sorted[OF n s]) auto
  show "length (candidates resp) \<le> 5"
    by (simp add: c select_candidates_length)
  show "sorted (map sum_distance_km (candidates resp))"
    unfolding c using s by (rule sorted_summaries)
qed

theorem candidates_at_most_five_sorted_witness:
  "snd (optimize_route demo_world (demo_request 50 None)) =
     Inr (demo_response (station_b\<lparr>station_id := Some ''b''\<rparr>) 15 [summary_b, summary_c]) \<and>
   length [summary_b, summary_c] \<le> 5 \<and>
   sorted (map sum_distance_km [summary_b, summary_c])"
  using candidates_at_most_five_sorted[of demo_world demo_origin 50 demo_stations
      "demo_request 50 None"
      "demo_response (station_b\<lparr>station_id := Some ''b''\<rparr>) 15 [summary_b, summary_c]"]
    demo_run_50
  by (simp add: demo_response_def)

text \<open>
  Claim C3. In every successful call \<open>best_station\<close> is the station of the first selected
  candidate, and the first entry of \<open>candidates\<close> is the summary of that candidate.
  \<open>distance_km\<close> is its distance \<open>d\<close> rounded to two decimals: it is the float nearest to
  \<open>k / 100\<close>, where \<open>k\<close> is the integer nearest to \<open>100 * d\<close>, the even one of the two when
  \<open>100 * d\<close> lies halfway; it therefore differs from \<open>d\<close> by at most \<open>1 / 200\<close> and the
  rounding of one float. No second key is used: the sort keeps candidates of equal distance
  in their input order, so the first candidate is the earliest one, in input order, among
  those at the least distance.
\<close>

theorem best_station_is_first_candidate:
  assumes "snd (optimize_route w req) = Inr resp"
    and "geocode_address w (origin req) = Some oc"
  shows "request_candidates w req oc \<noteq> [] \<and>
         best_station resp = cand_station (hd (request_candidates w req oc)) \<and>
         distance_km resp = py_round (cand_distance_km (hd (request_candidates w req oc))) 2 \<and>
         (\<exists>k::int.
            \<bar>of_int k - cand_distance_km (hd (request_candidates w req oc)) * 100\<bar> \<le> 1 / 2 \<and>
            (\<bar>of_int k - cand_distance_km (hd (request_candidates w req oc)) * 100\<bar> = 1 / 2
               \<longrightarrow> even k) \<and>
            distance_km resp = fl (of_int k / 100)) \<and>
         \<bar>distance_km resp - cand_distance_km (hd (request_candidates w req oc))\<bar>
           \<le> 1 / 200 +
              2 powi (- 53) * (\<bar>cand_distance_km (hd (request_candidates w req oc))\<bar> + 1 / 200) \<and>
         hd (candidates resp) = summarize (hd (request_candidates w req oc)) \<and>
         distance_km resp = sum_distance_km (hd (candidates resp)) \<and>
         request_candidates w req oc =
           take 5 (sorted_py cand_distance_km (request_pool w req oc)) \<and>
         hd (request_candidates w req oc) =
           hd (filter (\<lambda>c. cand_distance_km c =
                            Min (cand_distance_km ` set (request_pool w req oc)))
                 (request_pool w req oc)) \<and>
         (\<forall>k. filter (\<lambda>c. cand_distance_km c = k)
                (sorted_py cand_distance_km (request_pool w req oc)) =
              filter (\<lambda>c. cand_distance_km c = k) (request_pool w req oc))"
proof -
  let ?sel = "request_candidates w req oc"
  let ?pool = "request_pool w req oc"
  let ?d = "cand_distance_km (hd ?sel)"
  note r = optimize_route_request[OF assms]
  note f = request_candidates_facts[OF r(1), of oc]
  have resp: "resp =
     \<lparr>resp_origin = oc,
      best_station = cand_station (hd ?sel),
      distance_km = py_round (cand_distance_km (hd ?sel)) 2,
      eta_minutes = py_round (fmul (fdiv (cand_distance_km (hd ?sel)) 60) 60) 1,
      route_polyline =
        [[lat oc, lon oc],
         [latitude (cand_station (hd ?sel)), longitude (cand_station (hd ?sel))]],
      candidates = map summarize ?sel\<rparr>"
    using r(2) by (simp only: build_response_sorted[OF f(1,2)] sum.inject)
  have b: "best_station resp = cand_station (hd ?sel)"
    and d: "distance_km resp = py_round ?d 2"
    and c: "candidates resp = map summarize ?sel"
    by (subst resp, simp)+
  have k: "\<exists>k::int. \<bar>of_int k - ?d * 100\<bar> \<le> 1 / 2 \<and>
      (\<bar>of_int k - ?d * 100\<bar> = 1 / 2 \<longrightarrow> even k) \<and> distance_km resp = fl (of_int k / 100)"
  proof (intro exI conjI impI)
    show "\<bar>of_int (round_half_even (?d * 100)) - ?d * 100\<bar> \<le> 1 / 2"
      by (rule rhe_error)
    show "even (round_half_even (?d * 100))"
      if "\<bar>of_int (round_half_even (?d * 100)) - ?d * 100\<bar> = 1 / 2"
      using that by (rule rhe_tie_even)
    show "distance_km resp = fl (of_int (round_half_even (?d * 100)) / 100)"
      unfolding d by (rule py_round_hundredths)
  qed
  have cl: "\<bar>distance_km resp - ?d\<bar> \<le> 1 / 200 + 2 powi (- 53) * (\<bar>?d\<bar> + 1 / 200)"
    unfolding d by (rule py_round_2_close)
  have h: "hd (candidates resp) = summarize (hd ?sel)"
    unfolding c using f(1) by (rule hd_map)
  have d': "distance_km resp = sum_distance_km (hd (candidates resp))"
    by (simp add: h d summarize_def)
  have "hd ?sel = hd (sorted_py cand_distance_km ?pool)"
    by (simp add: f(3))
  also have "\<dots> = hd (filter (\<lambda>c. cand_distance_km c = Min (cand_distance_km ` set ?pool)) ?pool)"
    using f(4) by (rule hd_sorted_py_first_least)
  finally have t: "hd ?sel =
      hd (filter (\<lambda>c. cand_distance_km c = Min (cand_distance_km ` set ?pool)) ?pool)" .
  have st: "\<forall>k. filter (\<lambda>c. cand_distance_km c = k) (sorted_py cand_distance_km ?pool) =
      filter (\<lambda>c. cand_distance_km c = k) ?pool"
    by (simp add: sorted_py_stable)
  from f(1) b d k cl h d' f(3) t st show ?thesis
    by (intro conjI)
qed

theorem best_station_is_first_candidate_witness:
  "snd (optimize_route tie_world (demo_request 50 None)) = Inr tie_response \<and>
   geocode_address tie_world (origin (demo_request 50 None)) = Some demo_origin \<and>
   request_pool tie_world (demo_request 50 None) demo_origin = tie_candidates \<and>
   request_candidates tie_world (demo_request 50 None) demo_origin = tie_candidates \<and>
   cand_distance_km (hd tie_candidates) = 1 / 8 \<and>
   cand_distance_km (hd (tl tie_candidates)) = 1 / 8 \<and>
   best_station tie_response = cand_station (hd tie_candidates) \<and>
   best_station tie_response = station_b\<lparr>station_id := Some ''b''\<rparr> \<and>
   \<bar>real_of_int 12 - 1 / 8 * 100\<bar> = 1 / 2 \<and> even (12 :: int) \<and>
   distance_km tie_response = fl (real_of_int 12 / 100) \<and>
   distance_km tie_response = 8646911284551352 / 2 ^ 56 \<and>
   distance_km tie_response \<noteq> 1 / 8"
proof -
  have g: "geocode_address tie_world (origin (demo_request 50 None)) = Some demo_origin"
    by (simp add: demo_request_def tie_geocode_here)
  have h: "cand_distance_km (hd tie_candidates) = 1 / 8"
    and h': "cand_distance_km (hd (tl tie_candidates)) = 1 / 8"
    and s: "cand_station (hd tie_candidates) = station_b\<lparr>station_id := Some ''b''\<rparr>"
    by (simp_all add: tie_candidates_def)
  note t = best_station_is_first_candidate[OF tie_run g, unfolded tie_request_candidates h]
  from t have b: "best_station tie_response = cand_station (hd tie_candidates)"
    by blast
  from t obtain k :: int where k1: "\<bar>of_int k - 1 / 8 * 100\<bar> \<le> (1 / 2 :: real)"
    and k2: "\<bar>real_of_int k - 1 / 8 * 100\<bar> = 1 / 2 \<longrightarrow> even k"
    and k3: "distance_km tie_response = fl (of_int k / 100)"
    by blast
  from k1 have "12 \<le> real_of_int k \<and> real_of_int k \<le> 13" by linarith
  then have "12 \<le> k \<and> k \<le> 13" by simp
  then have "k = 12 \<or> k = 13" by linarith
  moreover have "k \<noteq> 13" using k2 by auto
  ultimately have "k = 12" by simp
  with k3 have d: "distance_km tie_response = fl (real_of_int 12 / 100)" by simp
  have v: "distance_km tie_response = 8646911284551352 / 2 ^ 56"
    by (simp add: tie_response_def)
  then have n: "distance_km tie_response \<noteq> 1 / 8" by simp
  have e: "\<bar>real_of_int 12 - 1 / 8 * 100\<bar> = 1 / 2" and ev: "even (12 :: int)" by simp_all
  from tie_run g tie_request_pool tie_request_candidates h h' b b[unfolded s] e ev d v n
  show ?thesis by (intro conjI)
qed

text \<open>
  Claim C4, as amended. In every successful call \<open>eta_minutes\<close> is the float product
  \<open>(d / 60) * 60\<close> of the best distance \<open>d\<close>, rounded to one decimal, with the constant 60.
  The division and the multiplication each round, so the unrounded value is \<open>d\<close> only up
  to a relative error of \<open>3 * 2 ^ -53\<close> (for \<open>d\<close> of magnitude at least \<open>2 ^ -1000\<close>); where
  the two roundings cancel, \<open>eta_minutes\<close> is \<open>d\<close> rounded to one decimal.
\<close>

theorem eta_minutes_float_product:
  assumes "snd (optimize_route w req) = Inr resp"
    and "geocode_address w (origin req) = Some oc"
  shows "eta_minutes resp =
           py_round (fmul (fdiv (cand_distance_km (hd (request_candidates w req oc))) 60) 60) 1 \<and>
         (2 powi (- 1000) \<le> \<bar>cand_distance_km (hd (request_candidates w req oc))\<bar> \<longrightarrow>
            \<bar>fmul (fdiv (cand_distance_km (hd (request_candidates w req oc))) 60) 60
               - cand_distance_km (hd (request_candidates w req oc))\<bar>
            \<le> 3 * 2 powi (- 53) * \<bar>cand_distance_km (hd (request_candidates w req oc))\<bar>) \<and>
         (fmul (fdiv (cand_distance_km (hd (request_candidates w req oc))) 60) 60
            = cand_distance_km (hd (request_candidates w req oc)) \<longrightarrow>
            eta_minutes resp =
              py_round (cand_distance_km (hd (request_candidates w req oc))) 1)"
proof -
  let ?sel = "request_candidates w req oc"
  note r = optimize_route_request[OF assms]
  note f = request_candidates_facts[OF r(1), of oc]
  have resp: "resp =
     \<lparr>resp_origin = oc,
      best_station = cand_station (hd ?sel),
      distance_km = py_round (cand_distance_km (hd ?sel)) 2,
      eta_minutes = py_round (fmul (fdiv (cand_distance_km (hd ?sel)) 60) 60) 1,
      route_polyline =
        [[lat oc, lon oc],
         [latitude (cand_station (hd ?sel)), longitude (cand_station (hd ?sel))]],
      candidates = map summarize ?sel\<rparr>"
    using r(2) by (simp only: build_response_sorted[OF f(1,2)] sum.inject)
  have e: "eta_minutes resp = py_round (fmul (fdiv (cand_distance_km (hd ?sel)) 60) 60) 1"
    by (subst resp) simp
  show ?thesis
    using e eta_close[of "cand_distance_km (hd ?sel)"] by simp
qed

theorem eta_minutes_float_product_witness:
  "snd (optimize_route demo_world (demo_request 50 None)) =
     Inr (demo_response (station_b\<lparr>station_id := Some ''b''\<rparr>) 15 [summary_b, summary_c]) \<and>
   geocode_address demo_world (origin (demo_request 50 None)) = Some demo_origin \<and>
   cand_distance_km (hd (request_candidates demo_world (demo_request 50 None) demo_origin)) = 15 \<and>
   2 powi (- 1000) \<le> \<bar>15 :: real\<bar> \<and>
   fmul (fdiv 15 60) 60 = 15 \<and>
   \<bar>fmul (fdiv 15 60) 60 - 15\<bar> \<le> 3 * 2 powi (- 53) * \<bar>15 :: real\<bar> \<and>
   eta_minutes (demo_response (station_b\<lparr>station_id := Some ''b''\<rparr>) 15 [summary_b, summary_c])
     = py_round 15 1"
proof -
  have g: "geocode_address demo_world (origin (demo_request 50 None)) = Some demo_origin"
    by (simp add: demo_request_def demo_geocode_here)
  have d: "cand_distance_km (hd (request_candidates demo_world (demo_request 50 None) demo_origin))
      = 15"
    by (simp add: demo_request_50 cand_b_def)
  have "(2::real) powi (- 1000) \<le> 2 powi 0"
    by (rule power_int_increasing) simp_all
  then have s: "2 powi (- 1000) \<le> \<bar>15 :: real\<bar>" by simp
  from eta_minutes_float_product[OF demo_run_50 g]
  have "\<bar>fmul (fdiv 15 60) 60 - 15\<bar> \<le> 3 * 2 powi (- 53) * \<bar>15 :: real\<bar>"
    and "eta_minutes (demo_response (station_b\<lparr>station_id := Some ''b''\<rparr>) 15
        [summary_b, summary_c]) = py_round 15 1"
    unfolding d using s eta_15 by blast+
  with g d s eta_15 demo_run_50 show ?thesis by (intro conjI)
qed

text \<open>
  Claim C4 as stated fails for a station at distance \<^verbatim>\<open>1.95\<close>: the float product is
  \<^verbatim>\<open>1.9500000000000002\<close>, so \<open>eta_minutes\<close> is \<^verbatim>\<open>2.0\<close>, while the distance rounded to one
  decimal is \<^verbatim>\<open>1.9\<close>.
\<close>

theorem eta_minutes_counterexample:
  "snd (optimize_route near_world (demo_request 50 None)) = Inr near_response \<and>
   request_candidates near_world (demo_request 50 None) demo_origin = [near_candidate] \<and>
   cand_distance_km near_candidate = d195 \<and>
   distance_km near_response = d195 \<and>
   fmul (fdiv d195 60) 60 \<noteq> d195 \<and>
   eta_minutes near_response = 2 \<and>
   py_round d195 1 = 8556839292003942 / 2 ^ 52 \<and>
   eta_minutes near_response \<noteq> py_round (cand_distance_km near_candidate) 1 \<and>
   eta_minutes near_response \<noteq> py_round (distance_km near_response) 1"
proof -
  have c: "cand_distance_km near_candidate = d195"
    by (simp add: near_candidate_def)
  have d: "distance_km near_response = d195" and e: "eta_minutes near_response = 2"
    by (simp_all add: near_response_def)
  have n: "(2::real) \<noteq> 8556839292003942 / 2 ^ 52" by simp
  have "eta_minutes near_response \<noteq> py_round (cand_distance_km near_candidate) 1"
    and "eta_minutes near_response \<noteq> py_round (distance_km near_response) 1"
    unfolding c d e py_round_d195_1 using n by blast+
  with near_run near_request_candidates c d e eta_d195_differs py_round_d195_1
  show ?thesis by (intro conjI)
qed

text \<open>
  Claim C5, as amended. For every request whose \<open>preferred_charger\<close> is a non-empty
  string: exactly the stations whose \<open>charger_type\<close> equals the preference after
  \<^verbatim>\<open>str.lower()\<close> on both are kept; if none is kept the call fails, once its origin is
  geocoded, with the error 404 "No stations available for the given filter" and returns no
  response; and in a successful call the best station, every candidate and every distance
  computation belong to a kept station. A \<open>preferred_charger\<close> that is the empty string is
  treated like an absent one: no station is filtered out, and the call does what the call
  without a preference does.
\<close>

theorem preferred_charger_filter:
  assumes "preferred_charger req = Some p"
  shows "(p \<noteq> [] \<longrightarrow>
           request_stations w req =
             filter (\<lambda>s. lower w (charger_type s) = lower w p) (list_stations w) \<and>
           (\<forall>oc. geocode_address w (origin req) = Some oc \<and> request_stations w req = [] \<longrightarrow>
              optimize_route w req =
                ([Geocode (origin req), ListStations],
                 Inl (HTTPException 404 ''No stations available for the given filter''))) \<and>
           (\<forall>resp. snd (optimize_route w req) = Inr resp \<longrightarrow>
              best_station resp \<in> set (list_stations w) \<and>
              lower w (charger_type (best_station resp)) = lower w p \<and>
              (\<forall>c \<in> set (candidates resp). lower w (sum_charger_type c) = lower w p)) \<and>
           (\<forall>a b. Geodesic a b \<in> set (fst (optimize_route w req)) \<longrightarrow>
              (\<exists>s \<in> set (list_stations w).
                 lower w (charger_type s) = lower w p \<and> b = (latitude s, longitude s)))) \<and>
         (p = [] \<longrightarrow>
           request_stations w req = list_stations w \<and>
           optimize_route w req = optimize_route w (req\<lparr>preferred_charger := None\<rparr>))"
proof (intro conjI impI allI)
  assume e: "p = []"
  show "request_stations w req = list_stations w"
    by (simp add: request_stations_def assms e charger_filter_empty_string)
  show "optimize_route w req = optimize_route w (req\<lparr>preferred_charger := None\<rparr>)"
    by (simp add: optimize_route_cases assms e charger_filter_def split: option.splits)
next
  assume n: "p \<noteq> []"
  show rs: "request_stations w req =
      filter (\<lambda>s. lower w (charger_type s) = lower w p) (list_stations w)"
    by (simp add: request_stations_def assms charger_filter_Some[OF n])
  have kept: "s \<in> set (list_stations w) \<and> lower w (charger_type s) = lower w p"
    if "s \<in> set (request_stations w req)" for s
    using that by (simp add: rs)
  {
    fix oc
    assume "geocode_address w (origin req) = Some oc \<and> request_stations w req = []"
    then show "optimize_route w req =
        ([Geocode (origin req), ListStations],
         Inl (HTTPException 404 ''No stations available for the given filter''))"
      by (simp add: optimize_route_no_stations request_stations_def)
  }
  {
    fix a b
    assume "Geodesic a b \<in> set (fst (optimize_route w req))"
    then obtain s where "s \<in> set (request_stations w req)" "b = (latitude s, longitude s)"
      using optimize_route_events by blast
    then show "\<exists>s \<in> set (list_stations w).
        lower w (charger_type s) = lower w p \<and> b = (latitude s, longitude s)"
      using kept by blast
  }
  fix resp
  assume ok: "snd (optimize_route w req) = Inr resp"
  then obtain oc where g: "geocode_address w (origin req) = Some oc"
    by (rule optimize_route_success)
  note r = optimize_route_request[OF ok g]
  note f = request_candidates_facts[OF r(1), of oc]
  let ?sel = "request_candidates w req oc"
  have resp: "resp =
     \<lparr>resp_origin = oc,
      best_station = cand_station (hd ?sel),
      distance_km = py_round (cand_distance_km (hd ?sel)) 2,
      eta_minutes = py_round (fmul (fdiv (cand_distance_km (hd ?sel)) 60) 60) 1,
      route_polyline =
        [[lat oc, lon oc],
         [latitude (cand_station (hd ?sel)), longitude (cand_station (hd ?sel))]],
      candidates = map summarize ?sel\<rparr>"
    using r(2) by (simp only: build_response_sorted[OF f(1,2)] sum.inject)
  have b: "best_station resp = cand_station (hd ?sel)"
    and c: "candidates resp = map summarize ?sel"
    by (subst resp, simp)+
  have "hd ?sel \<in> set ?sel" using f(1) by (rule hd_in_set)
  then have "best_station resp \<in> set (request_stations w req)"
    unfolding b using r(1) by (rule request_candidate_station[rotated])
  then show "best_station resp \<in> set (list_stations w)"
    and "lower w (charger_type (best_station resp)) = lower w p"
    using kept by blast+
  show "\<forall>c \<in> set (candidates resp). lower w (sum_charger_type c) = lower w p"
  proof
    fix s assume "s \<in> set (candidates resp)"
    then obtain c' where c': "c' \<in> set ?sel" and s: "s = summarize c'"
      unfolding c by auto
    have "cand_station c' \<in> set (request_stations w req)"
      using r(1) c' by (rule request_candidate_station)
    then have "lower w (charger_type (cand_station c')) = lower w p"
      using kept by blast
    then show "lower w (sum_charger_type s) = lower w p"
      by (simp add: s summarize_def)
  qed
qed

theorem preferred_charger_filter_witness:
  "preferred_charger (demo_request 50 (Some ''ccs'')) = Some ''ccs'' \<and>
   request_stations demo_world (demo_request 50 (Some ''ccs'')) =
     [station_a\<lparr>station_id := Some ''a''\<rparr>, station_c\<lparr>station_id := Some ''c''\<rparr>] \<and>
   snd (optimize_route demo_world (demo_request 50 (Some ''ccs''))) =
     Inr (demo_response (station_c\<lparr>station_id := Some ''c''\<rparr>) 30 [summary_c]) \<and>
   lower demo_world (charger_type (station_c\<lparr>station_id := Some ''c''\<rparr>)) =
     lower demo_world ''ccs'' \<and>
   lower demo_world (sum_charger_type summary_c) = lower demo_world ''ccs'' \<and>
   preferred_charger (demo_request 50 (Some ''CHAdeMO'')) = Some ''CHAdeMO'' \<and>
   geocode_address demo_world (origin (demo_request 50 (Some ''CHAdeMO''))) = Some demo_origin \<and>
   request_stations demo_world (demo_request 50 (Some ''CHAdeMO'')) = [] \<and>
   optimize_route demo_world (demo_request 50 (Some ''CHAdeMO'')) =
     ([Geocode ''here'', ListStations],
      Inl (HTTPException 404 ''No stations available for the given filter'')) \<and>
   preferred_charger (demo_request 50 (Some '''')) = Some '''' \<and>
   request_stations demo_world (demo_request 50 (Some '''')) = demo_stations \<and>
   optimize_route demo_world (demo_request 50 (Some '''')) =
     optimize_route demo_world (demo_request 50 None)"
proof -
  have p: "preferred_charger (demo_request 50 (Some ''ccs'')) = Some ''ccs''"
    and p': "preferred_charger (demo_request 50 (Some ''CHAdeMO'')) = Some ''CHAdeMO''"
    and g': "geocode_address demo_world (origin (demo_request 50 (Some ''CHAdeMO'')))
      = Some demo_origin"
    and o: "origin (demo_request 50 (Some ''CHAdeMO'')) = ''here''"
    and p'': "preferred_charger (demo_request 50 (Some '''')) = Some ''''"
    and u: "(demo_request 50 (Some ''''))\<lparr>preferred_charger := None\<rparr> = demo_request 50 None"
    by (simp_all add: demo_request_def demo_geocode_here)
  have n: "''ccs'' \<noteq> []" and n': "''CHAdeMO'' \<noteq> []" by simp_all
  have rs: "request_stations demo_world (demo_request 50 (Some ''ccs'')) =
      [station_a\<lparr>station_id := Some ''a''\<rparr>, station_c\<lparr>station_id := Some ''c''\<rparr>]"
    by (simp add: request_stations_def demo_request_def demo_list_stations demo_filter_ccs)
  have rs': "request_stations demo_world (demo_request 50 (Some ''CHAdeMO'')) = []"
    by (simp add: request_stations_def demo_request_def demo_list_stations charger_filter_def
        demo_lower demo_stations_def station_a_def station_b_def station_c_def lower_ccs)
  have a: "lower demo_world (charger_type (station_c\<lparr>station_id := Some ''c''\<rparr>)) =
      lower demo_world ''ccs''"
    and b: "lower demo_world (sum_charger_type summary_c) = lower demo_world ''ccs''"
    using preferred_charger_filter[OF p, of demo_world] n demo_run_ccs
    by (simp_all add: demo_response_def)
  have c: "optimize_route demo_world (demo_request 50 (Some ''CHAdeMO'')) =
     ([Geocode ''here'', ListStations],
      Inl (HTTPException 404 ''No stations available for the given filter''))"
    using preferred_charger_filter[OF p', of demo_world] n' g' rs' unfolding o by blast
  have d: "request_stations demo_world (demo_request 50 (Some '''')) = demo_stations"
    and e: "optimize_route demo_world (demo_request 50 (Some '''')) =
      optimize_route demo_world (demo_request 50 None)"
    using preferred_charger_filter[OF p'', of demo_world]
    by (simp_all add: demo_list_stations u)
  from p rs demo_run_ccs a b p' g' rs' c p'' d e show ?thesis
    by (intro conjI)
qed

text \<open>
  Claim C5 as stated fails for the empty string: it is a preference that is set, yet
  the filter is skipped, all stations are kept, and the call succeeds with a best station
  whose charger type does not match the preference.
\<close>

theorem preferred_charger_filter_counterexample:
  "preferred_charger (demo_request 50 (Some '''')) = Some '''' \<and>
   request_stations demo_world (demo_request 50 (Some '''')) = demo_stations \<and>
   snd (optimize_route demo_world (demo_request 50 (Some ''''))) =
     Inr (demo_response (station_b\<lparr>station_id := Some ''b''\<rparr>) 15 [summary_b, summary_c]) \<and>
   lower demo_world (charger_type (best_station
     (demo_response (station_b\<lparr>station_id := Some ''b''\<rparr>) 15 [summary_b, summary_c])))
     \<noteq> lower demo_world ''''"
proof -
  have "preferred_charger (demo_request 50 (Some '''')) = Some ''''"
    by (simp add: demo_request_def)
  moreover have "request_stations demo_world (demo_request 50 (Some '''')) = demo_stations"
    by (simp add: request_stations_def demo_request_def demo_list_stations
        charger_filter_empty_string)
  moreover have "lower demo_world (charger_type (best_station
      (demo_response (station_b\<lparr>station_id := Some ''b''\<rparr>) 15 [summary_b, summary_c])))
      \<noteq> lower demo_world ''''"
    by (simp add: demo_response_def station_b_def demo_lower ascii_lower_def)
  ultimately show ?thesis
    using demo_run_empty_string by (intro conjI)
qed

text \<open>
  Claim C6. When the origin cannot be geocoded, because the provider finds no match or
  because it fails, the call ends with the error 404 "Origin not found" after the single
  call to the geocoder: the stations are not fetched, no distance is computed, and there
  is no response.
\<close>

theorem origin_not_found_stops_first:
  assumes "geolocator_geocode w (origin req) = No_match
         \<or> geolocator_geocode w (origin req) = Provider_error"
  shows "optimize_route w req =
           ([Geocode (origin req)], Inl (HTTPException 404 ''Origin not found'')) \<and>
         ListStations \<notin> set (fst (optimize_route w req)) \<and>
         (\<forall>p q. Geodesic p q \<notin> set (fst (optimize_route w req))) \<and>
         (\<forall>resp. snd (optimize_route w req) \<noteq> Inr resp)"
proof -
  from assms have "geocode_address w (origin req) = None"
    by (simp only: geocode_address_None)
  then have "optimize_route w req =
      ([Geocode (origin req)], Inl (HTTPException 404 ''Origin not found''))"
    by (simp add: optimize_route_cases)
  then show ?thesis by simp
qed

theorem origin_not_found_stops_first_witness:
  "geolocator_geocode demo_world ''nowhere'' = No_match \<and>
   optimize_route demo_world \<lparr>origin = ''nowhere'', max_distance_km = 50, preferred_charger = None\<rparr>
     = ([Geocode ''nowhere''], Inl (HTTPException 404 ''Origin not found'')) \<and>
   geolocator_geocode demo_world ''down'' = Provider_error \<and>
   optimize_route demo_world \<lparr>origin = ''down'', max_distance_km = 50, preferred_charger = None\<rparr>
     = ([Geocode ''down''], Inl (HTTPException 404 ''Origin not found''))"
proof -
  have a: "geolocator_geocode demo_world ''nowhere'' = No_match"
    and b: "geolocator_geocode demo_world ''down'' = Provider_error"
    by (simp_all add: demo_world_def demo_geocode_def)
  show ?thesis
    using a b
      origin_not_found_stops_first[of demo_world
        "\<lparr>origin = ''nowhere'', max_distance_km = 50, preferred_charger = None\<rparr>"]
      origin_not_found_stops_first[of demo_world
        "\<lparr>origin = ''down'', max_distance_km = 50, preferred_charger = None\<rparr>"]
    by simp
qed

text \<open>
  Claim C7. In the response of every successful call, \<open>route_polyline\<close> is the list of
  exactly two points, the geocoded origin first and the coordinates of \<open>best_station\<close>
  second.
\<close>

theorem route_polyline_two_points:
  assumes "snd (optimize_route w req) = Inr resp"
  shows "route_polyline resp =
           [[lat (resp_origin resp), lon (resp_origin resp)],
            [latitude (best_station resp), longitude (best_station resp)]] \<and>
         length (route_polyline resp) = 2 \<and>
         geocode_address w (origin req) = Some (resp_origin resp)"
proof -
  from assms obtain oc where g: "geocode_address w (origin req) = Some oc"
    and b: "build_response oc
          (select_candidates w oc (max_distance_km req)
             (charger_filter w (preferred_charger req) (list_stations w))) = Inr resp"
    by (rule optimize_route_success)
  show ?thesis
    using g build_response_fields(1,2)[OF b] by simp
qed

theorem route_polyline_two_points_witness:
  "snd (optimize_route demo_world (demo_request 50 None)) =
     Inr (demo_response (station_b\<lparr>station_id := Some ''b''\<rparr>) 15 [summary_b, summary_c]) \<and>
   route_polyline (demo_response (station_b\<lparr>station_id := Some ''b''\<rparr>) 15 [summary_b, summary_c])
     = [[0, 0], [15, 0]] \<and>
   geocode_address demo_world ''here'' = Some \<lparr>lat = 0, lon = 0\<rparr>"
  using route_polyline_two_points[of demo_world "demo_request 50 None"
      "demo_response (station_b\<lparr>station_id := Some ''b''\<rparr>) 15 [summary_b, summary_c]"]
    demo_run_50
  by (simp add: demo_response_def demo_origin_def station_b_def demo_request_def)

text \<open>
  Claim C9. The selection step returns a non-empty list for a non-empty station list, in
  both branches; \<^verbatim>\<open>min\<close> is therefore never applied to an empty list, and the response of
  every successful call has at least one candidate.
\<close>

theorem candidates_never_empty:
  "(stations \<noteq> [] \<longrightarrow> select_candidates w oc m stations \<noteq> []) \<and>
   snd (optimize_route w req) \<noteq> Inl ValueError \<and>
   (snd (optimize_route w req) = Inr resp \<longrightarrow>
      candidates resp \<noteq> [] \<and> 1 \<le> length (candidates resp))"
proof (intro conjI impI)
  assume "stations \<noteq> []"
  then show "select_candidates w oc m stations \<noteq> []"
    by (rule select_candidates_nonempty)
next
  show "snd (optimize_route w req) \<noteq> Inl ValueError"
  proof (cases "geocode_address w (origin req)")
    case None
    then show ?thesis by (simp add: optimize_route_cases)
  next
    case (Some oc')
    let ?st = "charger_filter w (preferred_charger req) (list_stations w)"
    show ?thesis
    proof (cases "?st = []")
      case True
      with Some show ?thesis by (simp add: optimize_route_cases)
    next
      case False
      then have n: "select_candidates w oc' (max_distance_km req) ?st \<noteq> []"
        by (rule select_candidates_nonempty)
      have s: "sorted (map cand_distance_km (select_candidates w oc' (max_distance_km req) ?st))"
        by (rule select_candidates_sorted)
      show ?thesis
        using Some False by (simp add: optimize_route_cases build_response_sorted[OF n s])
    qed
  qed
next
  assume "snd (optimize_route w req) = Inr resp"
  then obtain oc' where
    b: "build_response oc'
          (select_candidates w oc' (max_distance_km req)
             (charger_filter w (preferred_charger req) (list_stations w))) = Inr resp"
    by (rule optimize_route_success)
  show c: "candidates resp \<noteq> []"
    using build_response_fields(3,4)[OF b] by simp
  then show "1 \<le> length (candidates resp)"
    by (cases "candidates resp") simp_all
qed

theorem candidates_never_empty_witness:
  "demo_stations \<noteq> [] \<and>
   select_candidates demo_world demo_origin 50 demo_stations = [cand_b, cand_c] \<and>
   snd (optimize_route demo_world (demo_request 50 None)) =
     Inr (demo_response (station_b\<lparr>station_id := Some ''b''\<rparr>) 15 [summary_b, summary_c]) \<and>
   candidates (demo_response (station_b\<lparr>station_id := Some ''b''\<rparr>) 15 [summary_b, summary_c])
     \<noteq> []"
  using candidates_never_empty[of demo_stations demo_world demo_origin 50
      "demo_request 50 None"
      "demo_response (station_b\<lparr>station_id := Some ''b''\<rparr>) 15 [summary_b, summary_c]"]
    demo_run_50 demo_select_50 demo_stations_nonempty
  by simp

text \<open>
  Claim C10. When the request names no charger type and the database returns no station,
  the call fails (once the origin is geocoded) with the error 404 "No stations available
  for the given filter"; this is the result of every call whose charger filter leaves no
  station, so the caller cannot tell the two cases apart.
\<close>

theorem empty_snapshot_same_error:
  assumes "preferred_charger req = None" and "db w = Some []"
    and "geocode_address w (origin req) = Some oc"
  shows "list_stations w = [] \<and>
         optimize_route w req =
           ([Geocode (origin req), ListStations],
            Inl (HTTPException 404 ''No stations available for the given filter'')) \<and>
         (\<forall>w' req' oc' p.
            geocode_address w' (origin req') = Some oc' \<and>
            preferred_charger req' = Some p \<and> p \<noteq> [] \<and> list_stations w' \<noteq> [] \<and>
            filter (\<lambda>s. lower w' (charger_type s) = lower w' p) (list_stations w') = []
            \<longrightarrow> snd (optimize_route w' req') = snd (optimize_route w req))"
proof -
  have l: "list_stations w = []"
    using assms(2) by (simp add: list_stations_def)
  then have f: "charger_filter w (preferred_charger req) (list_stations w) = []"
    by (simp add: charger_filter_def assms(1))
  have r: "optimize_route w req =
      ([Geocode (origin req), ListStations],
       Inl (HTTPException 404 ''No stations available for the given filter''))"
    using assms(3) f by (rule optimize_route_no_stations)
  have "snd (optimize_route w' req') = snd (optimize_route w req)"
    if "geocode_address w' (origin req') = Some oc'" and "preferred_charger req' = Some p"
      and "p \<noteq> []"
      and "filter (\<lambda>s. lower w' (charger_type s) = lower w' p) (list_stations w') = []"
    for w' req' oc' p
  proof -
    have "charger_filter w' (preferred_charger req') (list_stations w') = []"
      using that(2-4) by (simp add: charger_filter_def)
    with that(1) show ?thesis
      by (simp add: optimize_route_no_stations r)
  qed
  with l r show ?thesis by blast
qed

theorem empty_snapshot_same_error_witness:
  "preferred_charger (demo_request 50 None) = None \<and>
   db (demo_world\<lparr>db := Some []\<rparr>) = Some [] \<and>
   geocode_address (demo_world\<lparr>db := Some []\<rparr>) (origin (demo_request 50 None)) = Some demo_origin \<and>
   optimize_route (demo_world\<lparr>db := Some []\<rparr>) (demo_request 50 None) =
     ([Geocode ''here'', ListStations],
      Inl (HTTPException 404 ''No stations available for the given filter'')) \<and>
   filter (\<lambda>s. lower demo_world (charger_type s) = lower demo_world ''CHAdeMO'')
     (list_stations demo_world) = [] \<and>
   snd (optimize_route demo_world (demo_request 50 (Some ''CHAdeMO''))) =
     snd (optimize_route (demo_world\<lparr>db := Some []\<rparr>) (demo_request 50 None))"
proof -
  have g: "geocode_address (demo_world\<lparr>db := Some []\<rparr>) (origin (demo_request 50 None))
      = Some demo_origin"
    by (simp add: geocode_address_def demo_world_def demo_geocode_def demo_origin_def
        demo_request_def)
  have p: "preferred_charger (demo_request 50 None) = None"
    and d: "db (demo_world\<lparr>db := Some []\<rparr>) = Some []"
    by (simp_all add: demo_request_def)
  have f: "filter (\<lambda>s. lower demo_world (charger_type s) = lower demo_world ''CHAdeMO'')
      (list_stations demo_world) = []"
    by (simp add: demo_list_stations demo_stations_def station_a_def station_b_def
        station_c_def demo_lower lower_ccs)
  have g': "geocode_address demo_world (origin (demo_request 50 (Some ''CHAdeMO''))) = Some demo_origin"
    by (simp add: demo_request_def demo_geocode_here)
  have p': "preferred_charger (demo_request 50 (Some ''CHAdeMO'')) = Some ''CHAdeMO''"
    by (simp add: demo_request_def)
  have n: "list_stations demo_world \<noteq> []"
    by (simp add: demo_list_stations demo_stations_nonempty)
  have o: "origin (demo_request 50 None) = ''here''"
    by (simp add: demo_request_def)
  from empty_snapshot_same_error[OF p d g]
  have "optimize_route (demo_world\<lparr>db := Some []\<rparr>) (demo_request 50 None) =
     ([Geocode ''here'', ListStations],
      Inl (HTTPException 404 ''No stations available for the given filter''))"
    and "snd (optimize_route demo_world (demo_request 50 (Some ''CHAdeMO''))) =
     snd (optimize_route (demo_world\<lparr>db := Some []\<rparr>) (demo_request 50 None))"
    using g' p' n f unfolding o by blast+
  with p d g f show ?thesis by simp
qed

end
